theory Spec2Isabelle
  imports Complex_Main
begin

section \<open>VR headset frame pipeline: shallow embedding\<close>

text \<open>
  The Python sources are embedded function by function.  Python floats are modelled as
  \<^typ>\<open>real\<close> (no rounding, no infinities, no NaN); Python exceptions are values of the
  type \<open>error\<close>, and a function that can raise returns \<open>error + 'a\<close>.
  \<open>queue.Queue\<close> is a record of its \<open>maxsize\<close> and its items, oldest first; the embedding
  is sequential, one thread acting at a time.
\<close>

subsection \<open>Exceptions\<close>

datatype error =
  Full | Empty | ValueError | IndexError | ZeroDivisionError | SerialException | JitError

subsection \<open>config.py\<close>

record config =
  WIDTH :: nat
  HEIGHT :: nat
  CAPTURE_WIDTH :: nat
  CAPTURE_HEIGHT :: nat
  IPD :: real
  FOV_DEGREES :: real
  SCREEN_DISTANCE :: real
  SERIAL_PORT :: string
  SERIAL_BAUDRATE :: nat
  SENSOR_FILTER_ALPHA :: real
  TARGET_FPS :: nat
  CAPTURE_FPS :: nat
  RENDER_FPS :: nat
  FRAME_BUFFER_SIZE :: int
  ORIENTATION_THRESHOLD :: real
  CURSOR_SIZE :: nat
  CURSOR_COLOR :: "nat \<times> nat \<times> nat"
  FPS_TEXT_COLOR :: string
  FPS_TEXT_FONT :: "string \<times> nat"

text \<open>The module \<open>config.py\<close> as it stands in the repository.\<close>

definition config_py :: config where
  "config_py =
     \<lparr> WIDTH = 2560, HEIGHT = 1440, CAPTURE_WIDTH = 1280, CAPTURE_HEIGHT = 720,
       IPD = 63, FOV_DEGREES = 90, SCREEN_DISTANCE = 2,
       SERIAL_PORT = ''/dev/tty.usbserial-0001'', SERIAL_BAUDRATE = 115200,
       SENSOR_FILTER_ALPHA = 5 / 100,
       TARGET_FPS = 240, CAPTURE_FPS = 240, RENDER_FPS = 90, FRAME_BUFFER_SIZE = 2,
       ORIENTATION_THRESHOLD = 1 / 2,
       CURSOR_SIZE = 5, CURSOR_COLOR = (0, 255, 0),
       FPS_TEXT_COLOR = ''white'', FPS_TEXT_FONT = (''Arial'', 24) \<rparr>"

subsection \<open>queue.Queue\<close>

record 'a queue =
  maxsize :: int
  items :: "'a list"

definition Queue :: "int \<Rightarrow> 'a queue" where
  "Queue n = \<lparr> maxsize = n, items = [] \<rparr>"

text \<open>A queue whose \<open>maxsize\<close> is zero or negative is unbounded and never full.\<close>

definition full :: "'a queue \<Rightarrow> bool" where
  "full q = (0 < maxsize q \<and> maxsize q \<le> int (length (items q)))"

definition empty :: "'a queue \<Rightarrow> bool" where
  "empty q = (items q = [])"

definition put_nowait :: "'a \<Rightarrow> 'a queue \<Rightarrow> error + 'a queue" where
  "put_nowait x q = (if full q then Inl Full else Inr (q\<lparr>items := items q @ [x]\<rparr>))"

definition get_nowait :: "'a queue \<Rightarrow> error + ('a \<times> 'a queue)" where
  "get_nowait q =
     (case items q of
        [] \<Rightarrow> Inl Empty
      | x # rest \<Rightarrow> Inr (x, q\<lparr>items := rest\<rparr>))"

subsection \<open>Queue management of the frame and render buffers\<close>

text \<open>
  \<open>ScreenCapture.capture_screen\<close> (capture.py, lines 70 to 78) and
  \<open>VRDisplayApp.render_frame_thread\<close> (display.py, lines 100 to 108) push with the same
  nested \<open>try\<close>: \<open>put_nowait\<close>; on \<open>Full\<close>, \<open>get_nowait\<close> and \<open>put_nowait\<close> again, where
  only \<open>Empty\<close> is caught.  A \<open>Full\<close> from the second \<open>put_nowait\<close> is not caught and
  leaves the statement.
\<close>

definition queue_frame :: "'a \<Rightarrow> 'a queue \<Rightarrow> error + 'a queue" where
  "queue_frame frame q =
     (case put_nowait frame q of
        Inr q' \<Rightarrow> Inr q'
      | Inl Full \<Rightarrow>
          (case get_nowait q of
             Inl Empty \<Rightarrow> Inr q
           | Inl e \<Rightarrow> Inl e
           | Inr (oldest, q1) \<Rightarrow>
               (case put_nowait frame q1 of
                  Inr q2 \<Rightarrow> Inr q2
                | Inl Empty \<Rightarrow> Inr q1
                | Inl e \<Rightarrow> Inl e))
      | Inl e \<Rightarrow> Inl e)"

text \<open>A producer pushing a sequence of frames, one call after the other.\<close>

fun queue_frames :: "'a list \<Rightarrow> 'a queue \<Rightarrow> error + 'a queue" where
  "queue_frames [] q = Inr q"
| "queue_frames (frame # rest) q =
     (case queue_frame frame q of
        Inl e \<Rightarrow> Inl e
      | Inr q' \<Rightarrow> queue_frames rest q')"

subsection \<open>LowPassFilter (processing/filters.py)\<close>

text \<open>
  Modelled from the spec: the class \<open>LowPassFilter\<close> of \<open>processing/filters.py\<close>, which
  \<open>sensors/fusion.py\<close> imports and constructs with \<open>alpha = config.SENSOR_FILTER_ALPHA\<close>,
  is not among the sources.  The specification (OrientationFilter) gives it one piece of
  state, the last smoothed value (\<open>None\<close> until the first call); \<open>update raw\<close> returns and
  stores \<open>raw\<close> on the first call and \<open>alpha * raw + (1 - alpha) * previous\<close> afterwards.
\<close>

record LowPassFilter =
  alpha :: real
  last_value :: "real option"

definition LowPassFilter_init :: "real \<Rightarrow> LowPassFilter" where
  "LowPassFilter_init a = \<lparr> alpha = a, last_value = None \<rparr>"

definition update :: "LowPassFilter \<Rightarrow> real \<Rightarrow> real \<times> LowPassFilter" where
  "update flt raw =
     (case last_value flt of
        None \<Rightarrow> (raw, flt\<lparr>last_value := Some raw\<rparr>)
      | Some previous \<Rightarrow>
          (let smoothed = alpha flt * raw + (1 - alpha flt) * previous
           in (smoothed, flt\<lparr>last_value := Some smoothed\<rparr>)))"


subsection \<open>utils/math\_utils.py\<close>

type_synonym matrix = "real list list"

definition radians :: "real \<Rightarrow> real" where
  "radians d = d * pi / 180"

text \<open>
  The product \<open>A @ B\<close> of two-dimensional arrays: entry \<open>(i, j)\<close> is the sum of the products
  of row \<open>i\<close> of \<open>A\<close> with column \<open>j\<close> of \<open>B\<close>.  numpy raises when the row length of \<open>A\<close>
  is not the column length of \<open>B\<close>; every product in the sources is of an \<open>n\<close> by 3 with a
  3 by 3 array built on the spot.
\<close>

definition matmul :: "matrix \<Rightarrow> matrix \<Rightarrow> matrix" where
  "matmul A B = map (\<lambda>row. map (\<lambda>col. sum_list (map2 (*) row col)) (transpose B)) A"

definition create_rotation_matrix :: "real \<Rightarrow> real \<Rightarrow> real \<Rightarrow> matrix" where
  "create_rotation_matrix yaw pitch roll =
     (let yaw_rad = radians yaw;
          pitch_rad = radians pitch;
          roll_rad = radians roll;
          rot_yaw = [[cos yaw_rad, 0, sin yaw_rad],
                     [0, 1, 0],
                     [- sin yaw_rad, 0, cos yaw_rad]];
          rot_pitch = [[1, 0, 0],
                       [0, cos pitch_rad, - sin pitch_rad],
                       [0, sin pitch_rad, cos pitch_rad]];
          rot_roll = [[cos roll_rad, - sin roll_rad, 0],
                      [sin roll_rad, cos roll_rad, 0],
                      [0, 0, 1]]
      in matmul (matmul rot_yaw rot_pitch) rot_roll)"

subsection \<open>processing/vr\_distortion.py\<close>

text \<open>A remap map: the grids \<open>left_map_x\<close>, \<open>left_map_y\<close>, \<open>right_map_x\<close>, \<open>right_map_y\<close>.\<close>

type_synonym remap = "matrix \<times> matrix \<times> matrix \<times> matrix"

text \<open>\<open>a.reshape(h, w)\<close> of a one-dimensional array, in row-major order.\<close>

definition reshape :: "nat \<Rightarrow> nat \<Rightarrow> real list \<Rightarrow> error + matrix" where
  "reshape h w a =
     (if h * w \<noteq> length a then Inl ValueError
      else Inr (map (\<lambda>r. take w (drop (r * w) a)) [0..<h]))"

text \<open>
  The function under \<open>@jit\<close>.  The index checks are those of Python: the loops read
  \<open>y_flat[i]\<close>, \<open>z_flat[i]\<close> for every \<open>i < len(x_flat)\<close> and the nine entries of
  \<open>rot_matrix\<close>.  Each loop that fills an array is the map of its body over the indices.
\<close>

definition compute_vr_distortion ::
  "real list \<Rightarrow> real list \<Rightarrow> real list \<Rightarrow> real \<Rightarrow> real \<Rightarrow> nat \<Rightarrow> nat \<Rightarrow> matrix \<Rightarrow> nat \<Rightarrow> nat
     \<Rightarrow> error + remap" where
  "compute_vr_distortion x_flat y_flat z_flat half_ipd focal_length target_width target_height
       rot_matrix img_height img_width =
     (let size = length x_flat in
      if 0 < size \<and>
         (length y_flat < size \<or> length z_flat < size \<or> length rot_matrix < 3 \<or>
          length (rot_matrix ! 0) < 3 \<or> length (rot_matrix ! 1) < 3 \<or>
          length (rot_matrix ! 2) < 3)
      then Inl IndexError
      else
       let left_rotated_x = map (\<lambda>i. (x_flat ! i - half_ipd) * rot_matrix ! 0 ! 0
                 + y_flat ! i * rot_matrix ! 0 ! 1 + z_flat ! i * rot_matrix ! 0 ! 2) [0..<size];
           left_rotated_y = map (\<lambda>i. (x_flat ! i - half_ipd) * rot_matrix ! 1 ! 0
                 + y_flat ! i * rot_matrix ! 1 ! 1 + z_flat ! i * rot_matrix ! 1 ! 2) [0..<size];
           left_rotated_z = map (\<lambda>i. (x_flat ! i - half_ipd) * rot_matrix ! 2 ! 0
                 + y_flat ! i * rot_matrix ! 2 ! 1 + z_flat ! i * rot_matrix ! 2 ! 2) [0..<size];
           left_screen_x = map (\<lambda>i. if left_rotated_z ! i > 0
                 then (left_rotated_x ! i / left_rotated_z ! i * focal_length)
                        + real target_width / 2
                 else - 1) [0..<size];
           left_screen_y = map (\<lambda>i. if left_rotated_z ! i > 0
                 then (left_rotated_y ! i / left_rotated_z ! i * focal_length)
                        + real target_height / 2
                 else - 1) [0..<size];
           right_rotated_x = map (\<lambda>i. (x_flat ! i + half_ipd) * rot_matrix ! 0 ! 0
                 + y_flat ! i * rot_matrix ! 0 ! 1 + z_flat ! i * rot_matrix ! 0 ! 2) [0..<size];
           right_rotated_y = map (\<lambda>i. (x_flat ! i + half_ipd) * rot_matrix ! 1 ! 0
                 + y_flat ! i * rot_matrix ! 1 ! 1 + z_flat ! i * rot_matrix ! 1 ! 2) [0..<size];
           right_rotated_z = map (\<lambda>i. (x_flat ! i + half_ipd) * rot_matrix ! 2 ! 0
                 + y_flat ! i * rot_matrix ! 2 ! 1 + z_flat ! i * rot_matrix ! 2 ! 2) [0..<size];
           right_screen_x = map (\<lambda>i. if right_rotated_z ! i > 0
                 then (right_rotated_x ! i / right_rotated_z ! i * focal_length)
                        + real target_width / 2
                 else - 1) [0..<size];
           right_screen_y = map (\<lambda>i. if right_rotated_z ! i > 0
                 then (right_rotated_y ! i / right_rotated_z ! i * focal_length)
                        + real target_height / 2
                 else - 1) [0..<size]
       in case reshape img_height img_width left_screen_x of Inl e \<Rightarrow> Inl e
          | Inr left_map_x \<Rightarrow>
         (case reshape img_height img_width left_screen_y of Inl e \<Rightarrow> Inl e
          | Inr left_map_y \<Rightarrow>
         (case reshape img_height img_width right_screen_x of Inl e \<Rightarrow> Inl e
          | Inr right_map_x \<Rightarrow>
         (case reshape img_height img_width right_screen_y of Inl e \<Rightarrow> Inl e
          | Inr right_map_y \<Rightarrow> Inr (left_map_x, left_map_y, right_map_x, right_map_y)))))"

record VRProcessor =
  config :: config
  target_width :: nat
  target_height :: nat
  fov_rad :: real
  focal_length :: real
  half_ipd :: real
  x_centered :: matrix
  y_centered :: matrix
  z_values :: matrix
  x_flat :: "real list"
  y_flat :: "real list"
  z_flat :: "real list"
  map_cache :: "remap option"
  last_orientation :: "(real \<times> real \<times> real) option"

text \<open>\<open>np.mgrid[0:h, 0:w]\<close>: the grid of row indices and the grid of column indices.\<close>

definition mgrid :: "nat \<Rightarrow> nat \<Rightarrow> matrix \<times> matrix" where
  "mgrid h w =
     (map (\<lambda>r. map (\<lambda>c. real r) [0..<w]) [0..<h],
      map (\<lambda>r. map (\<lambda>c. real c) [0..<w]) [0..<h])"

text \<open>
  \<open>VRProcessor.__init__\<close> with \<open>precompute_vr_parameters\<close> written in.  The two float
  divisions raise \<open>ZeroDivisionError\<close> on a zero divisor.  The tangent is the real one:
  where the half field of view is an odd multiple of a right angle, \<open>math.tan\<close> returns a
  large finite float while \<open>tan\<close> is 0 here, so for these fields of view (180 degrees and
  its odd multiples) the model reports \<open>ZeroDivisionError\<close> and says nothing about the
  code.  The cache starts as the empty dict, which is falsy: \<open>None\<close> here; a stored tuple
  of four maps is truthy.
\<close>

definition VRProcessor_init :: "config \<Rightarrow> error + VRProcessor" where
  "VRProcessor_init cfg =
     (let target_width = CAPTURE_WIDTH cfg div 2;
          target_height = CAPTURE_HEIGHT cfg;
          fov_rad = radians (FOV_DEGREES cfg)
      in if tan (fov_rad / 2) = 0 then Inl ZeroDivisionError
      else
       let focal_length = (real target_width / 2) / tan (fov_rad / 2)
       in if SCREEN_DISTANCE cfg * 1000 = 0 then Inl ZeroDivisionError
       else
        let half_ipd = IPD cfg * focal_length / (SCREEN_DISTANCE cfg * 1000) / 2;
            (y_grid, x_grid) = mgrid target_height target_width;
            x_centered = map (map (\<lambda>v. v - real target_width / 2)) x_grid;
            y_centered = map (map (\<lambda>v. v - real target_height / 2)) y_grid;
            z_values = map (map (\<lambda>v. 1 * focal_length)) x_grid
        in Inr \<lparr> config = cfg, target_width = target_width, target_height = target_height,
                 fov_rad = fov_rad, focal_length = focal_length, half_ipd = half_ipd,
                 x_centered = x_centered, y_centered = y_centered, z_values = z_values,
                 x_flat = concat x_centered, y_flat = concat y_centered,
                 z_flat = concat z_values,
                 map_cache = None, last_orientation = None \<rparr>)"

definition should_use_cache :: "VRProcessor \<Rightarrow> real \<times> real \<times> real \<Rightarrow> bool" where
  "should_use_cache self current_orientation =
     (case last_orientation self of
        None \<Rightarrow> False
      | Some recorded \<Rightarrow>
          (case (current_orientation, recorded) of
             ((yaw, pitch, roll), (yaw0, pitch0, roll0)) \<Rightarrow>
               (let diff = [\<bar>yaw - yaw0\<bar>, \<bar>pitch - pitch0\<bar>, \<bar>roll - roll0\<bar>]
                in list_all (\<lambda>d. d < ORIENTATION_THRESHOLD (config self)) diff)))"

text \<open>
  A column assignment \<open>coords[:, k] = a\<close> into \<open>n\<close> rows: \<open>a\<close> has \<open>n\<close> entries, or one entry
  that is broadcast; anything else raises.
\<close>

definition column :: "nat \<Rightarrow> real list \<Rightarrow> error + real list" where
  "column n a =
     (if length a = n then Inr a
      else if length a = 1 then Inr (replicate n (a ! 0))
      else Inl ValueError)"

text \<open>One eye of the fallback: \<open>offset\<close> is \<open>- half_ipd\<close> (left) or \<open>half_ipd\<close> (right).\<close>

definition fallback_eye ::
  "VRProcessor \<Rightarrow> matrix \<Rightarrow> real \<Rightarrow> error + (matrix \<times> matrix)" where
  "fallback_eye self rotation_matrix offset =
     (let n = length (x_flat self) in
      case column n (map (\<lambda>x. x + offset) (x_flat self)) of Inl e \<Rightarrow> Inl e
      | Inr c0 \<Rightarrow>
     (case column n (y_flat self) of Inl e \<Rightarrow> Inl e
      | Inr c1 \<Rightarrow>
     (case column n (z_flat self) of Inl e \<Rightarrow> Inl e
      | Inr c2 \<Rightarrow>
       (let coords = map (\<lambda>i. [c0 ! i, c1 ! i, c2 ! i]) [0..<n];
            rotated = matmul coords (transpose rotation_matrix);
            valid_indices = map (\<lambda>row. row ! 2 > 0) rotated;
            screen_x = map (\<lambda>i. if valid_indices ! i
                  then (rotated ! i ! 0 / rotated ! i ! 2 * focal_length self)
                         + real (target_width self) / 2
                  else - 1) [0..<n];
            screen_y = map (\<lambda>i. if valid_indices ! i
                  then (rotated ! i ! 1 / rotated ! i ! 2 * focal_length self)
                         + real (target_height self) / 2
                  else - 1) [0..<n]
        in case reshape (target_height self) (target_width self) screen_x of Inl e \<Rightarrow> Inl e
           | Inr map_x \<Rightarrow>
          (case reshape (target_height self) (target_width self) screen_y of Inl e \<Rightarrow> Inl e
           | Inr map_y \<Rightarrow> Inr (map_x, map_y))))))"

definition compute_vr_distortion_fallback ::
  "VRProcessor \<Rightarrow> real \<Rightarrow> real \<Rightarrow> real \<Rightarrow> error + remap" where
  "compute_vr_distortion_fallback self yaw pitch roll =
     (let rotation_matrix = create_rotation_matrix yaw pitch roll in
      case fallback_eye self rotation_matrix (- half_ipd self) of Inl e \<Rightarrow> Inl e
      | Inr (left_map_x, left_map_y) \<Rightarrow>
     (case fallback_eye self rotation_matrix (half_ipd self) of Inl e \<Rightarrow> Inl e
      | Inr (right_map_x, right_map_y) \<Rightarrow>
          Inr (left_map_x, left_map_y, right_map_x, right_map_y)))"

text \<open>
  \<open>compute_distortion_maps\<close>.  Whether the accelerated call raises for a reason outside
  the arithmetic (the compiler is missing, compilation fails) is the parameter
  \<open>jit_failure\<close>; any exception of the accelerated call leads to the fallback.
\<close>

definition compute_distortion_maps ::
  "error option \<Rightarrow> VRProcessor \<Rightarrow> real \<Rightarrow> real \<Rightarrow> real \<Rightarrow> error + (remap \<times> VRProcessor)" where
  "compute_distortion_maps jit_failure self yaw pitch roll =
     (let current_orientation = (yaw, pitch, roll);
          recompute =
            (let rotation_matrix = create_rotation_matrix yaw pitch roll;
                 attempt = (case jit_failure of
                    Some e \<Rightarrow> Inl e
                  | None \<Rightarrow> compute_vr_distortion (x_flat self) (y_flat self) (z_flat self)
                      (half_ipd self) (focal_length self)
                      (target_width self) (target_height self)
                      rotation_matrix
                      (target_height self) (target_width self))
             in case (case attempt of
                        Inl e \<Rightarrow> compute_vr_distortion_fallback self yaw pitch roll
                      | Inr maps \<Rightarrow> Inr maps) of
                  Inl e \<Rightarrow> Inl e
                | Inr maps \<Rightarrow>
                    Inr (maps, self\<lparr>map_cache := Some maps,
                                    last_orientation := Some current_orientation\<rparr>))
      in if should_use_cache self current_orientation
         then (case map_cache self of
                 Some cached \<Rightarrow> Inr (cached, self)
               | None \<Rightarrow> recompute)
         else recompute)"


text \<open>
  \<open>render_frame\<close>.  The image operations after the maps are obtained (two \<open>cv2.remap\<close>
  calls, \<open>np.hstack\<close> and \<open>cv2.resize\<close>) are the parameter \<open>resample\<close>.
\<close>

definition render_frame ::
  "error option \<Rightarrow> (remap \<Rightarrow> 'f \<Rightarrow> 'f) \<Rightarrow> VRProcessor \<Rightarrow> 'f \<Rightarrow> real \<Rightarrow> real \<Rightarrow> real
     \<Rightarrow> error + ('f \<times> VRProcessor)" where
  "render_frame jit_failure resample self frame yaw pitch roll =
     (case compute_distortion_maps jit_failure self yaw pitch roll of
        Inl e \<Rightarrow> Inl e
      | Inr (maps, self') \<Rightarrow> Inr (resample maps frame, self'))"

subsection \<open>sensors/reader.py\<close>

text \<open>
  Text is a list of characters with code points below 256.  \<open>isspace\<close> is the class \<open>\s\<close>
  of \<open>re\<close> and the set that \<open>str.strip\<close> removes, \<open>isdigit\<close> the class \<open>\d\<close>, on these
  code points.
\<close>

definition isspace :: "char \<Rightarrow> bool" where
  "isspace c = (c \<in> set [CHR 0x09, CHR 0x0A, CHR 0x0B, CHR 0x0C, CHR 0x0D,
                          CHR 0x1C, CHR 0x1D, CHR 0x1E, CHR 0x1F, CHR 0x20,
                          CHR 0x85, CHR 0xA0])"

definition isdigit :: "char \<Rightarrow> bool" where
  "isdigit c = (c \<in> set ''0123456789'')"

definition strip :: "string \<Rightarrow> string" where
  "strip s = rev (dropWhile isspace (rev (dropWhile isspace s)))"

text \<open>
  The constructs of the pattern: a literal, a greedy \<open>cls*\<close> and a greedy capturing group
  \<open>(cls+)\<close>.  \<open>match_here\<close> matches a sequence of them at the start of the text, trying
  the longest repetition first and backtracking to shorter ones, and returns the captured
  groups in order; \<open>re_search\<close> returns the match at the leftmost position that has one.
\<close>

datatype token = Literal string | ZeroOrMore "char \<Rightarrow> bool" | CaptureOneOrMore "char \<Rightarrow> bool"

fun match_here :: "token list \<Rightarrow> string \<Rightarrow> string list option"
  and capture_more ::
    "(char \<Rightarrow> bool) \<Rightarrow> token list \<Rightarrow> string \<Rightarrow> string \<Rightarrow> string list option" where
  "match_here [] s = Some []"
| "match_here (Literal l # ts) s =
     (if take (length l) s = l then match_here ts (drop (length l) s) else None)"
| "match_here (ZeroOrMore cls # ts) [] = match_here ts []"
| "match_here (ZeroOrMore cls # ts) (c # cs) =
     (if cls c
      then (case match_here (ZeroOrMore cls # ts) cs of
              Some groups \<Rightarrow> Some groups
            | None \<Rightarrow> match_here ts (c # cs))
      else match_here ts (c # cs))"
| "match_here (CaptureOneOrMore cls # ts) [] = None"
| "match_here (CaptureOneOrMore cls # ts) (c # cs) =
     (if cls c then capture_more cls ts [c] cs else None)"
| "capture_more cls ts captured [] = map_option ((#) captured) (match_here ts [])"
| "capture_more cls ts captured (c # cs) =
     (if cls c
      then (case capture_more cls ts (captured @ [c]) cs of
              Some groups \<Rightarrow> Some groups
            | None \<Rightarrow> map_option ((#) captured) (match_here ts (c # cs)))
      else map_option ((#) captured) (match_here ts (c # cs)))"

fun re_search :: "token list \<Rightarrow> string \<Rightarrow> string list option" where
  "re_search ts [] = match_here ts []"
| "re_search ts (c # cs) =
     (case match_here ts (c # cs) of
        Some groups \<Rightarrow> Some groups
      | None \<Rightarrow> re_search ts cs)"

text \<open>The class \<open>[-\d.]\<close>.\<close>

definition number_char :: "char \<Rightarrow> bool" where
  "number_char c = (c = CHR ''-'' \<or> isdigit c \<or> c = CHR ''.'')"

text \<open>\<open>self.pattern\<close>:
  \<^verbatim>\<open>Yaw:\s*([-\d.]+),\s*Pitch:\s*([-\d.]+),\s*Roll:\s*([-\d.]+)\<close>\<close>

definition pattern :: "token list" where
  "pattern =
     [Literal ''Yaw:'', ZeroOrMore isspace, CaptureOneOrMore number_char,
      Literal '','', ZeroOrMore isspace,
      Literal ''Pitch:'', ZeroOrMore isspace, CaptureOneOrMore number_char,
      Literal '','', ZeroOrMore isspace,
      Literal ''Roll:'', ZeroOrMore isspace, CaptureOneOrMore number_char]"

text \<open>
  \<open>float(text)\<close> for text made of the characters the pattern captures (minus sign,
  digits, dot): an optional leading minus sign, then digits with an optional dot and
  further digits, or a dot followed by digits; anything else over these characters raises
  \<open>ValueError\<close>.  The value is the decimal number as a real.
\<close>

definition digits_value :: "string \<Rightarrow> nat" where
  "digits_value s = foldl (\<lambda>acc c. 10 * acc + (of_char c - 48)) 0 s"

definition py_float :: "string \<Rightarrow> error + real" where
  "py_float s =
     (let negative = (take 1 s = ''-'');
          body = (if negative then drop 1 s else s);
          whole = takeWhile isdigit body;
          rest = dropWhile isdigit body;
          fraction = drop 1 rest
      in if (rest = [] \<and> whole \<noteq> [])
            \<or> (take 1 rest = ''.'' \<and> list_all isdigit fraction \<and> (whole \<noteq> [] \<or> fraction \<noteq> []))
         then Inr ((if negative then - 1 else 1)
                   * (real (digits_value whole)
                      + real (digits_value fraction) / 10 ^ length fraction))
         else Inl ValueError)"

text \<open>The dict put on the sensor queue.\<close>

type_synonym sample = "string \<rightharpoonup> real"

definition make_sample :: "real \<Rightarrow> real \<Rightarrow> real \<Rightarrow> real \<Rightarrow> sample" where
  "make_sample yaw pitch roll now =
     [''yaw'' \<mapsto> yaw, ''pitch'' \<mapsto> pitch, ''roll'' \<mapsto> roll, ''timestamp'' \<mapsto> now]"

text \<open>
  The body of the loop of \<open>sensor_reader\<close> for one decoded line (lines 34 to 53); \<open>now\<close> is
  the value of \<open>time.time()\<close>.  Only \<open>queue.Full\<close> from \<open>put_nowait\<close> is caught here.
\<close>

definition handle_line :: "real \<Rightarrow> string \<Rightarrow> sample queue \<Rightarrow> error + sample queue" where
  "handle_line now text q =
     (let line = strip text in
      case re_search pattern line of
        None \<Rightarrow> Inr q
      | Some [group1, group2, group3] \<Rightarrow>
          (case py_float group1 of Inl e \<Rightarrow> Inl e
           | Inr yaw \<Rightarrow>
          (case py_float group2 of Inl e \<Rightarrow> Inl e
           | Inr pitch \<Rightarrow>
          (case py_float group3 of Inl e \<Rightarrow> Inl e
           | Inr roll \<Rightarrow>
          (case put_nowait (make_sample yaw pitch roll now) q of
             Inl Full \<Rightarrow> Inr q
           | Inl e \<Rightarrow> Inl e
           | Inr q' \<Rightarrow> Inr q'))))
      | Some groups \<Rightarrow> Inl IndexError)"

text \<open>
  What one iteration of the loop observes: nothing waiting, a line read (decoded), or a
  failure of the serial transport.  The loop runs over the iterations that happen while
  \<open>self.running\<close> holds, each with its clock reading; any exception ends the loop in the
  outer handler.
\<close>

datatype reading = NoData | Line string | TransportFailure

fun read_loop :: "(real \<times> reading) list \<Rightarrow> sample queue \<Rightarrow> error option \<times> sample queue" where
  "read_loop [] q = (None, q)"
| "read_loop ((now, NoData) # rest) q = read_loop rest q"
| "read_loop ((now, TransportFailure) # rest) q = (Some SerialException, q)"
| "read_loop ((now, Line text) # rest) q =
     (if text = [] then read_loop rest q
      else (case handle_line now text q of
              Inl e \<Rightarrow> (Some e, q)
            | Inr q' \<Rightarrow> read_loop rest q'))"

text \<open>
  \<open>sensor_reader\<close>: the result is the exception reported by the outer handler, if any,
  whether the \<open>finally\<close> clause closed the serial connection, and the sensor queue.
\<close>

definition sensor_reader ::
  "bool \<Rightarrow> (real \<times> reading) list \<Rightarrow> sample queue \<Rightarrow> error option \<times> bool \<times> sample queue" where
  "sensor_reader port_opens iterations q =
     (if \<not> port_opens then (Some SerialException, False, q)
      else (case read_loop iterations q of (reported, q') \<Rightarrow> (reported, True, q')))"

subsection \<open>ui/display.py\<close>

record 'f VRDisplayApp =
  app_config :: config
  frame_buffer :: "'f queue"
  render_buffer :: "'f queue"
  sensor_data :: "string \<rightharpoonup> real"
  vr_processor :: VRProcessor

text \<open>\<open>d.get(key, default)\<close>\<close>

definition dict_get :: "(string \<rightharpoonup> real) \<Rightarrow> string \<Rightarrow> real \<Rightarrow> real" where
  "dict_get d key default_value = (case d key of None \<Rightarrow> default_value | Some v \<Rightarrow> v)"

text \<open>
  One iteration of the loop of \<open>render_frame_thread\<close>.  \<open>queue.Empty\<close> is the only
  exception caught around the body; \<open>sensor_data\<close> is the copy that
  \<open>SensorFusion.get_sensor_data\<close> returns.
\<close>

definition render_frame_thread_step ::
  "error option \<Rightarrow> (remap \<Rightarrow> 'f \<Rightarrow> 'f) \<Rightarrow> 'f VRDisplayApp \<Rightarrow> error + 'f VRDisplayApp" where
  "render_frame_thread_step jit_failure resample self =
     (if full (render_buffer self) then Inr self
      else if empty (frame_buffer self) then Inr self
      else
       (case get_nowait (frame_buffer self) of
          Inl Empty \<Rightarrow> Inr self
        | Inl e \<Rightarrow> Inl e
        | Inr (frame, frames) \<Rightarrow>
            (let yaw = dict_get (sensor_data self) ''yaw'' 0 + 100;
                 pitch = dict_get (sensor_data self) ''pitch'' 0 + 12;
                 roll = dict_get (sensor_data self) ''roll'' 0
             in case render_frame jit_failure resample (vr_processor self) frame yaw pitch roll of
                  Inl Empty \<Rightarrow> Inr (self\<lparr>frame_buffer := frames\<rparr>)
                | Inl e \<Rightarrow> Inl e
                | Inr (combined_frame, processor) \<Rightarrow>
                    (case queue_frame combined_frame (render_buffer self) of
                       Inl Empty \<Rightarrow>
                         Inr (self\<lparr>frame_buffer := frames, vr_processor := processor\<rparr>)
                     | Inl e \<Rightarrow> Inl e
                     | Inr rendered \<Rightarrow>
                         Inr (self\<lparr>frame_buffer := frames, vr_processor := processor,
                                   render_buffer := rendered\<rparr>)))))"

subsection \<open>Reference definitions\<close>

text \<open>
  The definitions of this subsection follow the wording of the specification, for
  comparison with the code.

  A standard right-handed rotation by the angle \<open>\<theta>\<close> about the unit axis \<open>k\<close> sends a
  vector \<open>v\<close> to \<open>v cos \<theta> + (k \<times> v) sin \<theta> + k (k \<cdot> v) (1 - cos \<theta>)\<close>; its matrix has the
  images of the three basis vectors as columns.
\<close>

type_synonym vec3 = "real \<times> real \<times> real"

definition cross :: "vec3 \<Rightarrow> vec3 \<Rightarrow> vec3" where
  "cross u v =
     (case (u, v) of ((u1, u2, u3), (v1, v2, v3)) \<Rightarrow>
        (u2 * v3 - u3 * v2, u3 * v1 - u1 * v3, u1 * v2 - u2 * v1))"

definition dot :: "vec3 \<Rightarrow> vec3 \<Rightarrow> real" where
  "dot u v = (case (u, v) of ((u1, u2, u3), (v1, v2, v3)) \<Rightarrow> u1 * v1 + u2 * v2 + u3 * v3)"

definition spec_rotate :: "vec3 \<Rightarrow> real \<Rightarrow> vec3 \<Rightarrow> vec3" where
  "spec_rotate k \<theta> v =
     (case (k, v, cross k v) of ((k1, k2, k3), (v1, v2, v3), (w1, w2, w3)) \<Rightarrow>
        (v1 * cos \<theta> + w1 * sin \<theta> + k1 * dot k v * (1 - cos \<theta>),
         v2 * cos \<theta> + w2 * sin \<theta> + k2 * dot k v * (1 - cos \<theta>),
         v3 * cos \<theta> + w3 * sin \<theta> + k3 * dot k v * (1 - cos \<theta>)))"

definition spec_rotation_matrix :: "vec3 \<Rightarrow> real \<Rightarrow> matrix" where
  "spec_rotation_matrix k \<theta> =
     (case (spec_rotate k \<theta> (1, 0, 0), spec_rotate k \<theta> (0, 1, 0), spec_rotate k \<theta> (0, 0, 1)) of
        ((a1, b1, c1), (a2, b2, c2), (a3, b3, c3)) \<Rightarrow>
          [[a1, a2, a3], [b1, b2, b3], [c1, c2, c3]])"

text \<open>The axes of the eye frame: \<open>x\<close> runs along pixel columns, \<open>y\<close> along pixel rows,
  \<open>z\<close> is the depth.\<close>

definition horizontal_axis :: vec3 where "horizontal_axis = (1, 0, 0)"
definition vertical_axis :: vec3 where "vertical_axis = (0, 1, 0)"
definition depth_axis :: vec3 where "depth_axis = (0, 0, 1)"

text \<open>Applying a 3 by 3 matrix to a point.\<close>

definition apply_rotation :: "matrix \<Rightarrow> vec3 \<Rightarrow> vec3" where
  "apply_rotation R v =
     (case v of (x, y, z) \<Rightarrow>
        (R ! 0 ! 0 * x + R ! 0 ! 1 * y + R ! 0 ! 2 * z,
         R ! 1 ! 0 * x + R ! 1 ! 1 * y + R ! 1 ! 2 * z,
         R ! 2 ! 0 * x + R ! 2 ! 1 * y + R ! 2 ! 2 * z))"

text \<open>
  The projection of a rotated point: for a positive rotated \<open>z\<close>,
  \<open>screen_x = rotated_x / rotated_z * focal_length + target_width / 2\<close> and
  \<open>screen_y = rotated_y / rotated_z * focal_length + target_height / 2\<close>; otherwise the
  sentinel \<open>-1\<close> in both coordinates.
\<close>

definition spec_project :: "real \<Rightarrow> nat \<Rightarrow> nat \<Rightarrow> vec3 \<Rightarrow> real \<times> real" where
  "spec_project f tw th v =
     (case v of (rotated_x, rotated_y, rotated_z) \<Rightarrow>
        if rotated_z > 0
        then (rotated_x / rotated_z * f + real tw / 2, rotated_y / rotated_z * f + real th / 2)
        else (- 1, - 1))"

text \<open>An \<open>h\<close> by \<open>w\<close> grid given by a function of the row-major index.\<close>

definition grid :: "nat \<Rightarrow> nat \<Rightarrow> (nat \<Rightarrow> real) \<Rightarrow> matrix" where
  "grid h w F = map (\<lambda>r. map (\<lambda>c. F (r * w + c)) [0..<w]) [0..<h]"

text \<open>The pair of maps of one eye, pixel by pixel, from the reference projection.\<close>

definition eye_maps ::
  "matrix \<Rightarrow> real \<Rightarrow> nat \<Rightarrow> nat \<Rightarrow> real list \<Rightarrow> real list \<Rightarrow> real list \<Rightarrow> real
     \<Rightarrow> matrix \<times> matrix" where
  "eye_maps R f tw th xs ys zs offset =
     (grid th tw (\<lambda>i. fst (spec_project f tw th
                        (apply_rotation R (xs ! i + offset, ys ! i, zs ! i)))),
      grid th tw (\<lambda>i. snd (spec_project f tw th
                        (apply_rotation R (xs ! i + offset, ys ! i, zs ! i)))))"

text \<open>
  The numeric values of the configuration surface: every number that \<open>config.py\<close>
  defines.
\<close>

definition config_values :: "config \<Rightarrow> real list" where
  "config_values cfg =
     [real (WIDTH cfg), real (HEIGHT cfg), real (CAPTURE_WIDTH cfg), real (CAPTURE_HEIGHT cfg),
      IPD cfg, FOV_DEGREES cfg, SCREEN_DISTANCE cfg, real (SERIAL_BAUDRATE cfg),
      SENSOR_FILTER_ALPHA cfg, real (TARGET_FPS cfg), real (CAPTURE_FPS cfg),
      real (RENDER_FPS cfg), real_of_int (FRAME_BUFFER_SIZE cfg), ORIENTATION_THRESHOLD cfg,
      real (CURSOR_SIZE cfg),
      real (fst (CURSOR_COLOR cfg)), real (fst (snd (CURSOR_COLOR cfg))),
      real (snd (snd (CURSOR_COLOR cfg))), real (snd (FPS_TEXT_FONT cfg))]"

text \<open>The four maps of a processor for an orientation, from the reference projection.\<close>

definition reference_maps :: "VRProcessor \<Rightarrow> real \<Rightarrow> real \<Rightarrow> real \<Rightarrow> remap" where
  "reference_maps self yaw pitch roll =
     (let R = create_rotation_matrix yaw pitch roll;
          l = eye_maps R (focal_length self) (target_width self) (target_height self)
                (x_flat self) (y_flat self) (z_flat self) (- half_ipd self);
          r = eye_maps R (focal_length self) (target_width self) (target_height self)
                (x_flat self) (y_flat self) (z_flat self) (half_ipd self)
      in (fst l, snd l, fst r, snd r))"

subsection \<open>A small configuration for evaluation\<close>

text \<open>
  The repository's configuration with a capture size of 4 by 2 pixels, hence two eyes of
  2 by 2 pixels, and the processor that \<open>VRProcessor.__init__\<close> builds from it.
\<close>

definition example_config :: config where
  "example_config = config_py\<lparr>CAPTURE_WIDTH := 4, CAPTURE_HEIGHT := 2\<rparr>"

definition example_processor :: VRProcessor where
  "example_processor =
     \<lparr> config = example_config, target_width = 2, target_height = 2,
       fov_rad = pi / 2, focal_length = 1, half_ipd = 63 / 4000,
       x_centered = [[- 1, 0], [- 1, 0]], y_centered = [[- 1, - 1], [0, 0]],
       z_values = [[1, 1], [1, 1]],
       x_flat = [- 1, 0, - 1, 0], y_flat = [- 1, - 1, 0, 0], z_flat = [1, 1, 1, 1],
       map_cache = None, last_orientation = None \<rparr>"

text \<open>The maps of that processor for the orientation \<open>(0, 0, 0)\<close>.\<close>

definition example_maps :: remap where
  "example_maps =
     ([[- (63 / 4000), 3937 / 4000], [- (63 / 4000), 3937 / 4000]], [[0, 0], [1, 1]],
      [[63 / 4000, 4063 / 4000], [63 / 4000, 4063 / 4000]], [[0, 0], [1, 1]])"

text \<open>
  An application state with one captured frame (the number 7 stands for it) waiting, an
  empty render buffer, the sensor data as \<open>SensorFusion.__init__\<close> sets it, and the small
  processor.
\<close>

definition example_app :: "nat VRDisplayApp" where
  "example_app =
     \<lparr> app_config = example_config,
       frame_buffer = \<lparr>maxsize = 2, items = [7]\<rparr>,
       render_buffer = Queue 2,
       sensor_data = [''yaw'' \<mapsto> 0, ''pitch'' \<mapsto> 0, ''roll'' \<mapsto> 0],
       vr_processor = example_processor \<rparr>"

section \<open>Properties\<close>

subsection \<open>Bounded channels\<close>

lemma queue_frame_not_full:
  "\<not> full q \<Longrightarrow> queue_frame x q = Inr (q\<lparr>items := items q @ [x]\<rparr>)"
  by (simp add: queue_frame_def put_nowait_def)

lemma queue_frame_full:
  "full q \<Longrightarrow> int (length (items q)) \<le> maxsize q \<Longrightarrow>
   queue_frame x q = Inr (q\<lparr>items := tl (items q) @ [x]\<rparr>)"
  by (cases "items q") (auto simp add: queue_frame_def put_nowait_def get_nowait_def full_def)

lemma queue_frame_bounded:
  assumes "0 < maxsize q" "int (length (items q)) \<le> maxsize q"
  shows "queue_frame x q =
     Inr (q\<lparr>items := drop (nat (int (length (items q)) + 1 - maxsize q)) (items q @ [x])\<rparr>)"
proof (cases "full q")
  case True
  then have l: "int (length (items q)) = maxsize q" using assms by (simp add: full_def)
  then have "items q \<noteq> []" using assms by auto
  then have "drop (Suc 0) (items q @ [x]) = tl (items q) @ [x]"
    by (cases "items q") simp_all
  then show ?thesis using queue_frame_full[OF True assms(2)] l by simp
next
  case False
  then have "int (length (items q)) < maxsize q" using assms by (simp add: full_def)
  then show ?thesis using queue_frame_not_full[OF False] by simp
qed

lemma queue_frames_bounded:
  assumes "0 < maxsize q" "int (length (items q)) \<le> maxsize q"
  shows "queue_frames xs q =
     Inr (q\<lparr>items := drop (nat (int (length (items q) + length xs) - maxsize q)) (items q @ xs)\<rparr>)"
  using assms
proof (induction xs arbitrary: q)
  case Nil
  then show ?case by simp
next
  case (Cons x xs)
  let ?q1 = "q\<lparr>items := drop (nat (int (length (items q)) + 1 - maxsize q)) (items q @ [x])\<rparr>"
  have s: "queue_frame x q = Inr ?q1" using queue_frame_bounded[OF Cons.prems] .
  have m: "0 < maxsize ?q1" using Cons.prems by simp
  have b: "int (length (items ?q1)) \<le> maxsize ?q1" using Cons.prems by auto
  have "queue_frames (x # xs) q = queue_frames xs ?q1" using s by simp
  also have "\<dots> = Inr (?q1\<lparr>items :=
      drop (nat (int (length (items ?q1) + length xs) - maxsize ?q1)) (items ?q1 @ xs)\<rparr>)"
    using Cons.IH[OF m b] .
  also have "\<dots> = Inr (q\<lparr>items :=
      drop (nat (int (length (items q) + length (x # xs)) - maxsize q)) (items q @ x # xs)\<rparr>)"
  proof (cases "int (length (items q)) + 1 - maxsize q \<le> 0")
    case True
    then show ?thesis by (simp add: nat_add_distrib)
  next
    case False
    then have l: "int (length (items q)) = maxsize q" using Cons.prems by simp
    then have "items q \<noteq> []" using Cons.prems by auto
    then obtain y ys where ys: "items q = y # ys" by (cases "items q") auto
    have m: "maxsize q = int (Suc (length ys))" using l ys by simp
    have n1: "nat (int (length (items q)) + 1 - maxsize q) = Suc 0" using m ys by simp
    have n2: "nat (int (length (items ?q1) + length xs) - maxsize ?q1) = length xs"
      using m ys by simp
    have n3: "nat (int (length (items q) + length (x # xs)) - maxsize q) = Suc (length xs)"
      using m ys by simp
    show ?thesis unfolding n2 n3 using ys n1 by simp
  qed
  finally show ?case .
qed

text \<open>
  Claim C6.  In a channel of capacity \<open>N\<close> (a \<open>Queue\<close> with \<open>maxsize = N > 0\<close> holding at
  most \<open>N\<close> items), pushing into the full channel removes the oldest item and appends the
  new one; every sequence of pushes returns a channel (no exception, nothing waited for)
  that holds the last \<open>N\<close> of the items that arrived, in arrival order; and after \<open>N + 1\<close>
  pushes into the empty channel these are all the items but the first.
\<close>

theorem channel_overflow_drops_oldest:
  fixes q :: "'a queue"
  assumes "0 < N" and "maxsize q = N" and "int (length (items q)) \<le> N"
  shows "(full q \<longrightarrow> queue_frame x q = Inr (q\<lparr>items := tl (items q) @ [x]\<rparr>))
       \<and> queue_frames xs q =
           Inr (q\<lparr>items := drop (length (items q @ xs) - nat N) (items q @ xs)\<rparr>)
       \<and> (int (length xs) = N + 1 \<longrightarrow>
            queue_frames xs (Queue N) = Inr \<lparr>maxsize = N, items = tl xs\<rparr>)"
proof (intro conjI impI)
  assume "full q"
  then show "queue_frame x q = Inr (q\<lparr>items := tl (items q) @ [x]\<rparr>)"
    using queue_frame_full assms by metis
next
  have "nat (int (length (items q) + length xs) - maxsize q) = length (items q @ xs) - nat N"
    using assms by (simp add: nat_diff_distrib')
  then show "queue_frames xs q =
      Inr (q\<lparr>items := drop (length (items q @ xs) - nat N) (items q @ xs)\<rparr>)"
    using queue_frames_bounded[of q xs] assms by simp
next
  assume l: "int (length xs) = N + 1"
  then have "nat (int (length xs) - N) = Suc 0" by simp
  moreover have "drop (Suc 0) xs = tl xs" by (cases xs) simp_all
  ultimately show "queue_frames xs (Queue N) = Inr \<lparr>maxsize = N, items = tl xs\<rparr>"
    using queue_frames_bounded[of "Queue N" xs] assms(1) by (simp add: Queue_def)
qed

theorem channel_overflow_drops_oldest_witness:
  "queue_frame (3::nat) \<lparr>maxsize = FRAME_BUFFER_SIZE config_py, items = [1, 2]\<rparr>
     = Inr \<lparr>maxsize = 2, items = [2, 3]\<rparr>
   \<and> queue_frames [3, 4, 5 :: nat] \<lparr>maxsize = FRAME_BUFFER_SIZE config_py, items = [1, 2]\<rparr>
     = Inr \<lparr>maxsize = 2, items = [4, 5]\<rparr>
   \<and> queue_frames [1, 2, 3 :: nat] (Queue (FRAME_BUFFER_SIZE config_py))
     = Inr \<lparr>maxsize = 2, items = [2, 3]\<rparr>"
  using channel_overflow_drops_oldest
    [of 2 "\<lparr>maxsize = FRAME_BUFFER_SIZE config_py, items = [1, 2::nat]\<rparr>" 3 "[3, 4, 5]"]
    channel_overflow_drops_oldest
    [of 2 "\<lparr>maxsize = FRAME_BUFFER_SIZE config_py, items = [1, 2::nat]\<rparr>" 3 "[1, 2, 3]"]
  by (simp add: full_def config_py_def Queue_def queue_frame_def put_nowait_def get_nowait_def)

subsection \<open>Orientation filter\<close>

lemma blend_between:
  fixes a :: real
  assumes "0 < a" "a < 1"
  shows "min p r \<le> a * r + (1 - a) * p \<and> a * r + (1 - a) * p \<le> max p r"
proof (cases "p \<le> r")
  case True
  have "0 \<le> a * (r - p)" and "0 \<le> (1 - a) * (r - p)"
    using True assms by simp_all
  then have "p \<le> a * r + (1 - a) * p" and "a * r + (1 - a) * p \<le> r"
    by (simp_all add: algebra_simps)
  then show ?thesis using True by (simp add: min_def max_def)
next
  case False
  have "0 \<le> a * (p - r)" and "0 \<le> (1 - a) * (p - r)"
    using False assms by simp_all
  then have "r \<le> a * r + (1 - a) * p" and "a * r + (1 - a) * p \<le> p"
    by (simp_all add: algebra_simps)
  then show ?thesis using False by (simp add: min_def max_def)
qed

text \<open>
  Claim C9.  From the empty state the first \<open>update\<close> returns and stores the raw input.
  With a previous value stored, \<open>update\<close> returns and stores
  \<open>alpha * raw + (1 - alpha) * previous\<close>; \<open>alpha\<close> is never changed by \<open>update\<close>; for
  \<open>alpha\<close> strictly between 0 and 1 the output lies between the previous output and the
  new input; and for \<open>alpha = 1\<close> the output is the raw input.
\<close>

theorem orientation_filter_update:
  "update (LowPassFilter_init a) raw = (raw, \<lparr>alpha = a, last_value = Some raw\<rparr>)
   \<and> (last_value flt = Some previous \<longrightarrow>
        update flt raw =
          (alpha flt * raw + (1 - alpha flt) * previous,
           flt\<lparr>last_value := Some (alpha flt * raw + (1 - alpha flt) * previous)\<rparr>))
   \<and> alpha (snd (update flt raw)) = alpha flt
   \<and> last_value (snd (update flt raw)) = Some (fst (update flt raw))
   \<and> (last_value flt = Some previous \<and> 0 < alpha flt \<and> alpha flt < 1 \<longrightarrow>
        min previous raw \<le> fst (update flt raw) \<and> fst (update flt raw) \<le> max previous raw)
   \<and> (alpha flt = 1 \<longrightarrow> fst (update flt raw) = raw)"
proof (intro conjI impI)
  show "update (LowPassFilter_init a) raw = (raw, \<lparr>alpha = a, last_value = Some raw\<rparr>)"
    by (simp add: update_def LowPassFilter_init_def)
  show "alpha (snd (update flt raw)) = alpha flt"
    by (simp add: update_def Let_def split: option.splits)
  show "last_value (snd (update flt raw)) = Some (fst (update flt raw))"
    by (simp add: update_def Let_def split: option.splits)
next
  assume "last_value flt = Some previous"
  then show "update flt raw =
      (alpha flt * raw + (1 - alpha flt) * previous,
       flt\<lparr>last_value := Some (alpha flt * raw + (1 - alpha flt) * previous)\<rparr>)"
    by (simp add: update_def Let_def)
next
  assume h: "last_value flt = Some previous \<and> 0 < alpha flt \<and> alpha flt < 1"
  then have u: "fst (update flt raw) = alpha flt * raw + (1 - alpha flt) * previous"
    by (simp add: update_def Let_def)
  from h blend_between[of "alpha flt" previous raw]
  show "min previous raw \<le> fst (update flt raw)" and "fst (update flt raw) \<le> max previous raw"
    unfolding u by simp_all
next
  assume "alpha flt = 1"
  then show "fst (update flt raw) = raw"
    by (simp add: update_def Let_def split: option.splits)
qed

theorem orientation_filter_update_witness:
  "update (LowPassFilter_init (SENSOR_FILTER_ALPHA config_py)) 40
     = (40, \<lparr>alpha = 1 / 20, last_value = Some 40\<rparr>)
   \<and> update \<lparr>alpha = SENSOR_FILTER_ALPHA config_py, last_value = Some 20\<rparr> 40
     = (21, \<lparr>alpha = 1 / 20, last_value = Some 21\<rparr>)
   \<and> (20::real) \<le> 21 \<and> (21::real) \<le> 40
   \<and> fst (update \<lparr>alpha = 1, last_value = Some 20\<rparr> 40) = 40"
  using orientation_filter_update
    [of "SENSOR_FILTER_ALPHA config_py" 40
        "\<lparr>alpha = SENSOR_FILTER_ALPHA config_py, last_value = Some 20\<rparr>" 20]
    orientation_filter_update
    [of 1 40 "\<lparr>alpha = 1, last_value = Some 20\<rparr>" 20]
  by (simp add: config_py_def update_def LowPassFilter_init_def)


subsection \<open>Rotation matrix\<close>

lemma matmul_3x3:
  "matmul [[a1,a2,a3],[b1,b2,b3],[c1,c2,c3]] [[d1,d2,d3],[e1,e2,e3],[f1,f2,f3]] =
   [[a1*d1 + a2*e1 + a3*f1, a1*d2 + a2*e2 + a3*f2, a1*d3 + a2*e3 + a3*f3],
    [b1*d1 + b2*e1 + b3*f1, b1*d2 + b2*e2 + b3*f2, b1*d3 + b2*e3 + b3*f3],
    [c1*d1 + c2*e1 + c3*f1, c1*d2 + c2*e2 + c3*f2, c1*d3 + c2*e3 + c3*f3]]"
  by (simp add: matmul_def add.assoc)

lemma transpose_3x3:
  "transpose [[a1,a2,a3],[b1,b2,b3],[c1,c2,c3]] = [[a1,b1,c1],[a2,b2,c2],[a3,b3,c3]]"
  by simp

lemma create_rotation_matrix_entries:
  "create_rotation_matrix yaw pitch roll =
     (let cy = cos (radians yaw); sy = sin (radians yaw);
          cp = cos (radians pitch); sp = sin (radians pitch);
          cr = cos (radians roll); sr = sin (radians roll)
      in [[cy * cr + sy * sp * sr, - (cy * sr) + sy * sp * cr, sy * cp],
          [cp * sr, cp * cr, - sp],
          [- (sy * cr) + cy * sp * sr, sy * sr + cy * sp * cr, cy * cp]])"
  by (simp add: create_rotation_matrix_def Let_def matmul_3x3 algebra_simps)

lemma identity_rotation: "create_rotation_matrix 0 0 0 = [[1, 0, 0], [0, 1, 0], [0, 0, 1]]"
  by (simp add: create_rotation_matrix_entries radians_def)

lemma half_turn: "create_rotation_matrix 180 0 0 = [[- 1, 0, 0], [0, 1, 0], [0, 0, - 1]]"
  by (simp add: create_rotation_matrix_entries radians_def Let_def)

lemma spec_rotation_vertical:
  "spec_rotation_matrix vertical_axis t = [[cos t, 0, sin t], [0, 1, 0], [- sin t, 0, cos t]]"
  by (simp add: spec_rotation_matrix_def spec_rotate_def cross_def dot_def vertical_axis_def)

lemma spec_rotation_horizontal:
  "spec_rotation_matrix horizontal_axis t = [[1, 0, 0], [0, cos t, - sin t], [0, sin t, cos t]]"
  by (simp add: spec_rotation_matrix_def spec_rotate_def cross_def dot_def horizontal_axis_def)

lemma spec_rotation_depth:
  "spec_rotation_matrix depth_axis t = [[cos t, - sin t, 0], [sin t, cos t, 0], [0, 0, 1]]"
  by (simp add: spec_rotation_matrix_def spec_rotate_def cross_def dot_def depth_axis_def)

text \<open>
  Claim C7.  For every triple of angles in degrees, the matrix built by
  \<open>create_rotation_matrix\<close> is the product \<open>R_yaw \<cdot> R_pitch \<cdot> R_roll\<close> of the standard
  right-handed rotations by the yaw about the vertical axis, by the pitch about the
  horizontal axis and by the roll about the depth axis, each angle converted to radians.
\<close>

theorem rotation_matrix_is_yaw_pitch_roll:
  "create_rotation_matrix yaw pitch roll =
     matmul (matmul (spec_rotation_matrix vertical_axis (yaw * pi / 180))
                    (spec_rotation_matrix horizontal_axis (pitch * pi / 180)))
            (spec_rotation_matrix depth_axis (roll * pi / 180))"
  by (simp only: create_rotation_matrix_def Let_def radians_def
      spec_rotation_vertical spec_rotation_horizontal spec_rotation_depth)

subsection \<open>Remap maps, pixel by pixel\<close>

lemma take_drop_map_upt:
  assumes "r < h"
  shows "take w (drop (r * w) (map F [0..<h * w])) = map (\<lambda>c. F (r * w + c)) [0..<w]"
proof -
  have le: "r * w + w \<le> h * w"
  proof -
    have "Suc r * w \<le> h * w" using assms by (intro mult_le_mono1) simp
    then show ?thesis by (simp add: add.commute)
  qed
  have "take w (drop (r * w) (map F [0..<h * w])) = map F (take w [r * w..<h * w])"
    by (simp add: drop_map take_map)
  also have "take w [r * w..<h * w] = [r * w..<r * w + w]"
    using le by (simp add: min_def add.commute)
  also have "map F [r * w..<r * w + w] = map (\<lambda>c. F (r * w + c)) [0..<w]"
  proof -
    have "[r * w..<r * w + w] = map (\<lambda>i. i + r * w) [0..<w]"
      using map_add_upt[of "r * w" w] by (simp add: add.commute)
    then show ?thesis by (simp add: o_def add.commute)
  qed
  finally show ?thesis .
qed

lemma reshape_map_upt:
  "reshape h w (map F [0..<h * w]) = Inr (grid h w F)"
  by (simp add: reshape_def grid_def take_drop_map_upt del: take_map drop_map)

lemma grid_cong:
  "(\<And>r c. r < h \<Longrightarrow> c < w \<Longrightarrow> F (r * w + c) = G (r * w + c)) \<Longrightarrow> grid h w F = grid h w G"
  by (simp add: grid_def)

lemma grid_nth: "r < h \<Longrightarrow> c < w \<Longrightarrow> grid h w F ! r ! c = F (r * w + c)"
  by (simp add: grid_def)

lemma index_in_grid: "r < h \<Longrightarrow> c < w \<Longrightarrow> r * w + c < h * (w::nat)"
proof -
  assume a: "r < h" "c < w"
  have "Suc r * w \<le> h * w" using a by (intro mult_le_mono1) simp
  then show ?thesis using a by simp
qed

lemma reshape_map_eq:
  assumes "\<And>i. i < h * w \<Longrightarrow> F i = G i"
  shows "reshape h w (map F [0..<h * w]) = Inr (grid h w G)"
proof -
  have "map F [0..<h * w] = map G [0..<h * w]" using assms by simp
  then show ?thesis by (simp only: reshape_map_upt)
qed

lemma jit_maps:
  assumes R: "R = [[a1, a2, a3], [b1, b2, b3], [c1, c2, c3]]"
    and len: "length xs = th * tw" "length ys = th * tw" "length zs = th * tw"
  shows "compute_vr_distortion xs ys zs hi f tw th R th tw =
     Inr (fst (eye_maps R f tw th xs ys zs (- hi)), snd (eye_maps R f tw th xs ys zs (- hi)),
          fst (eye_maps R f tw th xs ys zs hi), snd (eye_maps R f tw th xs ys zs hi))"
proof -
  let ?n = "th * tw"
  let ?row = "\<lambda>k s. map (\<lambda>i. (xs ! i + s) * R ! k ! 0 + ys ! i * R ! k ! 1 + zs ! i * R ! k ! 2) [0..<?n]"
  have guard: "\<not> (0 < ?n \<and> (?n < ?n \<or> ?n < ?n \<or> length R < 3 \<or>
          length (R ! 0) < 3 \<or> length (R ! 1) < 3 \<or> length (R ! 2) < 3))"
    by (simp add: R)
  have m: "(\<lambda>i. (xs ! i - hi) * R ! k ! 0 + ys ! i * R ! k ! 1 + zs ! i * R ! k ! 2)
         = (\<lambda>i. (xs ! i + - hi) * R ! k ! 0 + ys ! i * R ! k ! 1 + zs ! i * R ! k ! 2)" for k
    by simp
  have px: "reshape th tw (map (\<lambda>i. if ?row 2 s ! i > 0
        then (?row 0 s ! i / ?row 2 s ! i * f) + real tw / 2 else - 1) [0..<?n])
      = Inr (fst (eye_maps R f tw th xs ys zs s))" for s
    unfolding eye_maps_def fst_conv
    by (rule reshape_map_eq) (simp add: spec_project_def apply_rotation_def algebra_simps)
  have py: "reshape th tw (map (\<lambda>i. if ?row 2 s ! i > 0
        then (?row 1 s ! i / ?row 2 s ! i * f) + real th / 2 else - 1) [0..<?n])
      = Inr (snd (eye_maps R f tw th xs ys zs s))" for s
    unfolding eye_maps_def snd_conv
    by (rule reshape_map_eq) (simp add: spec_project_def apply_rotation_def algebra_simps)
  show ?thesis
    unfolding compute_vr_distortion_def Let_def len m
    by (simp only: guard if_False px py sum.case)
qed

lemma column_same: "length a = n \<Longrightarrow> column n a = Inr a"
  by (simp add: column_def)

lemma fallback_eye_maps:
  assumes R: "R = [[a1, a2, a3], [b1, b2, b3], [c1, c2, c3]]"
    and len: "length (x_flat self) = target_height self * target_width self"
      "length (y_flat self) = target_height self * target_width self"
      "length (z_flat self) = target_height self * target_width self"
  shows "fallback_eye self R offset =
     Inr (eye_maps R (focal_length self) (target_width self) (target_height self)
            (x_flat self) (y_flat self) (z_flat self) offset)"
proof -
  let ?n = "target_height self * target_width self"
  let ?xs = "x_flat self" and ?ys = "y_flat self" and ?zs = "z_flat self"
  let ?f = "focal_length self" and ?tw = "target_width self" and ?th = "target_height self"
  let ?c0 = "map (\<lambda>x. x + offset) ?xs"
  let ?rot = "matmul (map (\<lambda>i. [?c0 ! i, ?ys ! i, ?zs ! i]) [0..<?n]) (transpose R)"
  have c0: "column ?n ?c0 = Inr ?c0" by (simp add: column_same len)
  have c1: "column ?n ?ys = Inr ?ys" by (simp add: column_same len)
  have c2: "column ?n ?zs = Inr ?zs" by (simp add: column_same len)
  have rot: "?rot = map (\<lambda>i. [(?xs ! i + offset) * a1 + ?ys ! i * a2 + ?zs ! i * a3,
                               (?xs ! i + offset) * b1 + ?ys ! i * b2 + ?zs ! i * b3,
                               (?xs ! i + offset) * c1 + ?ys ! i * c2 + ?zs ! i * c3]) [0..<?n]"
    by (simp add: matmul_def R len add.assoc)
  have px: "reshape ?th ?tw (map (\<lambda>i. if map (\<lambda>row. row ! 2 > 0) ?rot ! i
        then (?rot ! i ! 0 / ?rot ! i ! 2 * ?f) + real ?tw / 2 else - 1) [0..<?n])
      = Inr (fst (eye_maps R ?f ?tw ?th ?xs ?ys ?zs offset))"
    unfolding eye_maps_def fst_conv rot
    by (rule reshape_map_eq) (simp add: spec_project_def apply_rotation_def R algebra_simps)
  have py: "reshape ?th ?tw (map (\<lambda>i. if map (\<lambda>row. row ! 2 > 0) ?rot ! i
        then (?rot ! i ! 1 / ?rot ! i ! 2 * ?f) + real ?th / 2 else - 1) [0..<?n])
      = Inr (snd (eye_maps R ?f ?tw ?th ?xs ?ys ?zs offset))"
    unfolding eye_maps_def snd_conv rot
    by (rule reshape_map_eq) (simp add: spec_project_def apply_rotation_def R algebra_simps)
  show ?thesis
    unfolding fallback_eye_def Let_def len
    by (simp only: c0 c1 c2 sum.case px py prod.collapse)
qed

lemma create_rotation_matrix_shape:
  "\<exists>a1 a2 a3 b1 b2 b3 c1 c2 c3.
     create_rotation_matrix yaw pitch roll = [[a1, a2, a3], [b1, b2, b3], [c1, c2, c3]]"
  by (simp add: create_rotation_matrix_entries Let_def)

lemma fallback_maps:
  assumes len: "length (x_flat self) = target_height self * target_width self"
      "length (y_flat self) = target_height self * target_width self"
      "length (z_flat self) = target_height self * target_width self"
  shows "compute_vr_distortion_fallback self yaw pitch roll =
     Inr (reference_maps self yaw pitch roll)"
proof -
  from create_rotation_matrix_shape[of yaw pitch roll]
  obtain a1 a2 a3 b1 b2 b3 c1 c2 c3 where
    R: "create_rotation_matrix yaw pitch roll = [[a1, a2, a3], [b1, b2, b3], [c1, c2, c3]]"
    by (elim exE)
  show ?thesis
    unfolding compute_vr_distortion_fallback_def Let_def
    by (simp add: fallback_eye_maps[OF R len] reference_maps_def Let_def case_prod_beta)
qed

lemma accelerated_maps:
  assumes len: "length (x_flat self) = target_height self * target_width self"
      "length (y_flat self) = target_height self * target_width self"
      "length (z_flat self) = target_height self * target_width self"
  shows "compute_vr_distortion (x_flat self) (y_flat self) (z_flat self)
        (half_ipd self) (focal_length self) (target_width self) (target_height self)
        (create_rotation_matrix yaw pitch roll) (target_height self) (target_width self) =
     Inr (reference_maps self yaw pitch roll)"
proof -
  from create_rotation_matrix_shape[of yaw pitch roll]
  obtain a1 a2 a3 b1 b2 b3 c1 c2 c3 where
    R: "create_rotation_matrix yaw pitch roll = [[a1, a2, a3], [b1, b2, b3], [c1, c2, c3]]"
    by (elim exE)
  show ?thesis
    using jit_maps[OF R len] by (simp add: reference_maps_def Let_def)
qed

lemma length_concat_rows:
  "length (concat (map (\<lambda>r. map (g r) [0..<w]) [0..<h])) = h * w"
  by (induction h) simp_all

lemma nth_concat_rows:
  "r < h \<Longrightarrow> c < w \<Longrightarrow> concat (map (\<lambda>r. map (g r) [0..<w]) [0..<h]) ! (r * w + c) = g r c"
proof (induction h)
  case 0
  then show ?case by simp
next
  case (Suc h)
  show ?case
  proof (cases "r < h")
    case True
    then have "r * w + c < h * w" using Suc.prems index_in_grid by simp
    then show ?thesis using Suc.IH[OF True Suc.prems(2)]
      by (simp add: nth_append length_concat_rows)
  next
    case False
    then have "r = h" using Suc.prems by simp
    then show ?thesis using Suc.prems by (simp add: nth_append length_concat_rows)
  qed
qed

lemma VRProcessor_init_fields:
  assumes "VRProcessor_init cfg = Inr self"
  shows "config self = cfg"
    and "target_width self = CAPTURE_WIDTH cfg div 2"
    and "target_height self = CAPTURE_HEIGHT cfg"
    and "tan (radians (FOV_DEGREES cfg) / 2) \<noteq> 0"
    and "focal_length self = (real (CAPTURE_WIDTH cfg div 2) / 2) / tan (radians (FOV_DEGREES cfg) / 2)"
    and "SCREEN_DISTANCE cfg \<noteq> 0"
    and "half_ipd self = IPD cfg * focal_length self / (SCREEN_DISTANCE cfg * 1000) / 2"
    and "map_cache self = None" and "last_orientation self = None"
    and "x_flat self = concat (map (\<lambda>r. map (\<lambda>c. real c - real (target_width self) / 2)
            [0..<target_width self]) [0..<target_height self])"
    and "y_flat self = concat (map (\<lambda>r. map (\<lambda>c. real r - real (target_height self) / 2)
            [0..<target_width self]) [0..<target_height self])"
    and "z_flat self = concat (map (\<lambda>r. map (\<lambda>c. focal_length self)
            [0..<target_width self]) [0..<target_height self])"
  using assms
  by (auto simp add: VRProcessor_init_def Let_def mgrid_def o_def split: if_splits)

lemma VRProcessor_init_lengths:
  assumes "VRProcessor_init cfg = Inr self"
  shows "length (x_flat self) = target_height self * target_width self"
    and "length (y_flat self) = target_height self * target_width self"
    and "length (z_flat self) = target_height self * target_width self"
  by (simp_all add: VRProcessor_init_fields(10-12)[OF assms] length_concat_rows)

lemma VRProcessor_init_nth:
  assumes "VRProcessor_init cfg = Inr self" "r < target_height self" "c < target_width self"
  shows "x_flat self ! (r * target_width self + c) = real c - real (target_width self) / 2"
    and "y_flat self ! (r * target_width self + c) = real r - real (target_height self) / 2"
    and "z_flat self ! (r * target_width self + c) = focal_length self"
proof -
  note f = VRProcessor_init_fields(10-12)[OF assms(1)]
  show "x_flat self ! (r * target_width self + c) = real c - real (target_width self) / 2"
    by (subst f(1)) (rule nth_concat_rows[OF assms(2,3)])
  show "y_flat self ! (r * target_width self + c) = real r - real (target_height self) / 2"
    by (subst f(2)) (rule nth_concat_rows[OF assms(2,3)])
  show "z_flat self ! (r * target_width self + c) = focal_length self"
    by (subst f(3)) (rule nth_concat_rows[OF assms(2,3)])
qed

lemma example_processor_init: "VRProcessor_init example_config = Inr example_processor"
  by (simp add: VRProcessor_init_def example_config_def example_processor_def config_py_def
      radians_def mgrid_def Let_def tan_45 upt_rec)

subsection \<open>Accelerated computation and fallback\<close>

lemma example_jit:
  "compute_vr_distortion (x_flat example_processor) (y_flat example_processor)
       (z_flat example_processor) (half_ipd example_processor) (focal_length example_processor)
       (target_width example_processor) (target_height example_processor)
       (create_rotation_matrix 0 0 0)
       (target_height example_processor) (target_width example_processor)
     = Inr example_maps"
  by (simp add: compute_vr_distortion_def example_processor_def identity_rotation Let_def
      reshape_def upt_rec example_maps_def)

text \<open>
  Claim C3.  For every configuration from which a processor is built, hence for every
  destination pixel grid, and for every yaw, pitch and roll, the accelerated computation
  \<open>compute_vr_distortion\<close>, called as \<open>compute_distortion_maps\<close> calls it, returns the
  same four maps as \<open>compute_vr_distortion_fallback\<close>, and the fallback does return maps.
  Over the reals the maps are equal; the rounding of floating-point arithmetic is not
  modelled.
\<close>

theorem accelerated_equals_fallback:
  assumes "VRProcessor_init cfg = Inr self"
  shows "compute_vr_distortion (x_flat self) (y_flat self) (z_flat self)
           (half_ipd self) (focal_length self) (target_width self) (target_height self)
           (create_rotation_matrix yaw pitch roll) (target_height self) (target_width self)
         = compute_vr_distortion_fallback self yaw pitch roll
       \<and> (\<exists>maps. compute_vr_distortion_fallback self yaw pitch roll = Inr maps)"
proof (intro conjI exI[of _ "reference_maps self yaw pitch roll"])
  note len = VRProcessor_init_lengths[OF assms]
  show "compute_vr_distortion_fallback self yaw pitch roll
      = Inr (reference_maps self yaw pitch roll)"
    by (rule fallback_maps[OF len])
  then show "compute_vr_distortion (x_flat self) (y_flat self) (z_flat self)
           (half_ipd self) (focal_length self) (target_width self) (target_height self)
           (create_rotation_matrix yaw pitch roll) (target_height self) (target_width self)
         = compute_vr_distortion_fallback self yaw pitch roll"
    by (simp only: accelerated_maps[OF len])
qed

theorem accelerated_equals_fallback_witness:
  "VRProcessor_init example_config = Inr example_processor
   \<and> compute_vr_distortion_fallback example_processor 0 0 0
     = Inr ([[- (63 / 4000), 3937 / 4000], [- (63 / 4000), 3937 / 4000]], [[0, 0], [1, 1]],
            [[63 / 4000, 4063 / 4000], [63 / 4000, 4063 / 4000]], [[0, 0], [1, 1]])"
  using accelerated_equals_fallback[OF example_processor_init, of 0 0 0] example_jit
    example_processor_init
  by (simp add: example_maps_def)

subsection \<open>Projection of a pixel\<close>

lemma eye_maps_nth:
  assumes "VRProcessor_init cfg = Inr self" "r < target_height self" "c < target_width self"
  shows "(fst (eye_maps R (focal_length self) (target_width self) (target_height self)
                 (x_flat self) (y_flat self) (z_flat self) offset) ! r ! c,
          snd (eye_maps R (focal_length self) (target_width self) (target_height self)
                 (x_flat self) (y_flat self) (z_flat self) offset) ! r ! c)
       = spec_project (focal_length self) (target_width self) (target_height self)
           (apply_rotation R (real c - real (target_width self) / 2 + offset,
                              real r - real (target_height self) / 2, focal_length self))"
  by (simp add: eye_maps_def grid_nth[OF assms(2,3)] VRProcessor_init_nth[OF assms])

lemma reference_maps_nth:
  assumes "VRProcessor_init cfg = Inr self" "r < target_height self" "c < target_width self"
    and "reference_maps self yaw pitch roll = (left_map_x, left_map_y, right_map_x, right_map_y)"
  shows "(left_map_x ! r ! c, left_map_y ! r ! c)
       = spec_project (focal_length self) (target_width self) (target_height self)
           (apply_rotation (create_rotation_matrix yaw pitch roll)
              (real c - real (target_width self) / 2 - half_ipd self,
               real r - real (target_height self) / 2, focal_length self))"
    and "(right_map_x ! r ! c, right_map_y ! r ! c)
       = spec_project (focal_length self) (target_width self) (target_height self)
           (apply_rotation (create_rotation_matrix yaw pitch roll)
              (real c - real (target_width self) / 2 + half_ipd self,
               real r - real (target_height self) / 2, focal_length self))"
  using assms(4) eye_maps_nth[OF assms(1-3), of "create_rotation_matrix yaw pitch roll" "- half_ipd self"]
    eye_maps_nth[OF assms(1-3), of "create_rotation_matrix yaw pitch roll" "half_ipd self"]
  by (auto simp add: reference_maps_def Let_def)

text \<open>
  Claim C4.  For every destination pixel (row \<open>r\<close>, column \<open>c\<close>) and each eye, both
  computations store at that pixel the projection of the rotated point
  \<open>(c - target_width / 2 \<mp> half_ipd, r - target_height / 2, focal_length)\<close>: for a
  strictly positive rotated \<open>z\<close> the pair
  \<open>(rotated_x / rotated_z * focal_length + target_width / 2,
     rotated_y / rotated_z * focal_length + target_height / 2)\<close>, and \<open>(-1, -1)\<close> for a
  rotated \<open>z\<close> that is zero or negative (\<open>spec_project\<close>).
\<close>

theorem projection_or_sentinel:
  assumes "VRProcessor_init cfg = Inr self" "r < target_height self" "c < target_width self"
  shows "\<exists>left_map_x left_map_y right_map_x right_map_y.
      compute_vr_distortion (x_flat self) (y_flat self) (z_flat self)
           (half_ipd self) (focal_length self) (target_width self) (target_height self)
           (create_rotation_matrix yaw pitch roll) (target_height self) (target_width self)
        = Inr (left_map_x, left_map_y, right_map_x, right_map_y)
    \<and> compute_vr_distortion_fallback self yaw pitch roll
        = Inr (left_map_x, left_map_y, right_map_x, right_map_y)
    \<and> (left_map_x ! r ! c, left_map_y ! r ! c)
        = spec_project (focal_length self) (target_width self) (target_height self)
           (apply_rotation (create_rotation_matrix yaw pitch roll)
              (real c - real (target_width self) / 2 - half_ipd self,
               real r - real (target_height self) / 2, focal_length self))
    \<and> (right_map_x ! r ! c, right_map_y ! r ! c)
        = spec_project (focal_length self) (target_width self) (target_height self)
           (apply_rotation (create_rotation_matrix yaw pitch roll)
              (real c - real (target_width self) / 2 + half_ipd self,
               real r - real (target_height self) / 2, focal_length self))"
proof -
  note len = VRProcessor_init_lengths[OF assms(1)]
  obtain lx ly rx ry where m: "reference_maps self yaw pitch roll = (lx, ly, rx, ry)"
    by (cases "reference_maps self yaw pitch roll") auto
  show ?thesis
    using accelerated_maps[OF len, of yaw pitch roll] fallback_maps[OF len, of yaw pitch roll]
      reference_maps_nth[OF assms m]
    unfolding m by blast
qed

theorem projection_or_sentinel_witness:
  "(case compute_vr_distortion_fallback example_processor 0 0 0 of
      Inl e \<Rightarrow> False
    | Inr (left_map_x, left_map_y, right_map_x, right_map_y) \<Rightarrow>
        (left_map_x ! 1 ! 1, left_map_y ! 1 ! 1) = (3937 / 4000, 1)
      \<and> (right_map_x ! 1 ! 1, right_map_y ! 1 ! 1) = (4063 / 4000, 1))
   \<and> (case compute_vr_distortion_fallback example_processor 180 0 0 of
      Inl e \<Rightarrow> False
    | Inr (left_map_x, left_map_y, right_map_x, right_map_y) \<Rightarrow>
        (left_map_x ! 1 ! 1, left_map_y ! 1 ! 1) = (- 1, - 1)
      \<and> (right_map_x ! 1 ! 1, right_map_y ! 1 ! 1) = (- 1, - 1))"
proof -
  have r: "1 < target_height example_processor" and c: "1 < target_width example_processor"
    by (simp_all add: example_processor_def)
  have v: "focal_length example_processor = 1" "half_ipd example_processor = 63 / 4000"
    "target_width example_processor = 2" "target_height example_processor = 2"
    by (simp_all add: example_processor_def)
  from projection_or_sentinel[OF example_processor_init r c, of 0 0 0]
  have a: "case compute_vr_distortion_fallback example_processor 0 0 0 of
      Inl e \<Rightarrow> False
    | Inr (left_map_x, left_map_y, right_map_x, right_map_y) \<Rightarrow>
        (left_map_x ! 1 ! 1, left_map_y ! 1 ! 1) = (3937 / 4000, 1)
      \<and> (right_map_x ! 1 ! 1, right_map_y ! 1 ! 1) = (4063 / 4000, 1)"
    by (auto simp add: v identity_rotation spec_project_def apply_rotation_def)
  from projection_or_sentinel[OF example_processor_init r c, of 180 0 0]
  have b: "case compute_vr_distortion_fallback example_processor 180 0 0 of
      Inl e \<Rightarrow> False
    | Inr (left_map_x, left_map_y, right_map_x, right_map_y) \<Rightarrow>
        (left_map_x ! 1 ! 1, left_map_y ! 1 ! 1) = (- 1, - 1)
      \<and> (right_map_x ! 1 ! 1, right_map_y ! 1 ! 1) = (- 1, - 1)"
    by (auto simp add: v half_turn spec_project_def apply_rotation_def)
  from a b show ?thesis by simp
qed

subsection \<open>Remap cache\<close>

lemma should_use_cache_iff:
  "should_use_cache self (yaw, pitch, roll) =
     (case last_orientation self of None \<Rightarrow> False
      | Some (yaw0, pitch0, roll0) \<Rightarrow>
          \<bar>yaw - yaw0\<bar> < ORIENTATION_THRESHOLD (config self)
        \<and> \<bar>pitch - pitch0\<bar> < ORIENTATION_THRESHOLD (config self)
        \<and> \<bar>roll - roll0\<bar> < ORIENTATION_THRESHOLD (config self))"
  by (simp add: should_use_cache_def Let_def split: option.splits)

lemma recompute_result:
  assumes len: "length (x_flat self) = target_height self * target_width self"
      "length (y_flat self) = target_height self * target_width self"
      "length (z_flat self) = target_height self * target_width self"
    and "\<not> should_use_cache self (yaw, pitch, roll) \<or> map_cache self = None"
  shows "compute_distortion_maps jit_failure self yaw pitch roll =
     Inr (reference_maps self yaw pitch roll,
          self\<lparr>map_cache := Some (reference_maps self yaw pitch roll),
               last_orientation := Some (yaw, pitch, roll)\<rparr>)"
  using assms(4)
  by (auto simp add: compute_distortion_maps_def Let_def accelerated_maps[OF len]
      fallback_maps[OF len] split: option.splits)

lemma cached_result:
  assumes "map_cache self = Some cached" "should_use_cache self (yaw, pitch, roll)"
  shows "compute_distortion_maps jit_failure self yaw pitch roll = Inr (cached, self)"
  using assms by (simp add: compute_distortion_maps_def)

lemma call_leaves_cache:
  assumes len: "length (x_flat self) = target_height self * target_width self"
      "length (y_flat self) = target_height self * target_width self"
      "length (z_flat self) = target_height self * target_width self"
    and call: "compute_distortion_maps jit_failure self yaw pitch roll = Inr (maps, self')"
  shows "map_cache self' = Some maps \<and> config self' = config self"
proof (cases "should_use_cache self (yaw, pitch, roll) \<and> map_cache self \<noteq> None")
  case True
  then obtain cached where c: "map_cache self = Some cached"
    by (cases "map_cache self") simp_all
  from True have "compute_distortion_maps jit_failure self yaw pitch roll = Inr (cached, self)"
    using cached_result[OF c] by simp
  with call have "maps = cached" "self' = self" by simp_all
  then show ?thesis using c by simp
next
  case False
  then have "\<not> should_use_cache self (yaw, pitch, roll) \<or> map_cache self = None" by blast
  from recompute_result[OF len this, of jit_failure] call
  have "maps = reference_maps self yaw pitch roll"
    and "self' = self\<lparr>map_cache := Some (reference_maps self yaw pitch roll),
                        last_orientation := Some (yaw, pitch, roll)\<rparr>"
    by simp_all
  then show ?thesis by simp
qed


text \<open>
  Claim C2.  In every state of a processor (the precomputed grids of \<open>__init__\<close>, any
  cache content, any recorded orientation): when a map is cached and the new orientation
  differs from the recorded one by strictly less than \<open>ORIENTATION_THRESHOLD\<close> on each of
  the three axes, \<open>compute_distortion_maps\<close> returns the cached map and leaves the state
  as it is; when nothing is recorded or cached, or the difference reaches the threshold
  on some axis, it returns the maps computed for the new orientation and the state holds
  exactly these maps and the new orientation.  Hence of two consecutive calls, the second
  returns the map the first returned, without recomputation, when its orientation is
  within the threshold of the orientation recorded after the first.  This holds whether
  or not the accelerated call fails.
\<close>

theorem remap_cache_reuse_and_recompute:
  assumes init: "VRProcessor_init cfg = Inr self0"
    and state: "self = self0\<lparr>map_cache := cache, last_orientation := recorded\<rparr>"
  shows "(cache = Some cached \<and> recorded = Some (yaw0, pitch0, roll0)
          \<and> \<bar>yaw - yaw0\<bar> < ORIENTATION_THRESHOLD cfg
          \<and> \<bar>pitch - pitch0\<bar> < ORIENTATION_THRESHOLD cfg
          \<and> \<bar>roll - roll0\<bar> < ORIENTATION_THRESHOLD cfg
          \<longrightarrow> compute_distortion_maps jit_failure self yaw pitch roll = Inr (cached, self))
       \<and> (recorded = None \<or> cache = None
          \<or> (recorded = Some (yaw0, pitch0, roll0)
              \<and> (ORIENTATION_THRESHOLD cfg \<le> \<bar>yaw - yaw0\<bar>
                 \<or> ORIENTATION_THRESHOLD cfg \<le> \<bar>pitch - pitch0\<bar>
                 \<or> ORIENTATION_THRESHOLD cfg \<le> \<bar>roll - roll0\<bar>))
          \<longrightarrow> (\<exists>maps.
                compute_vr_distortion (x_flat self) (y_flat self) (z_flat self)
                  (half_ipd self) (focal_length self) (target_width self) (target_height self)
                  (create_rotation_matrix yaw pitch roll) (target_height self) (target_width self)
                  = Inr maps
              \<and> compute_distortion_maps jit_failure self yaw pitch roll
                  = Inr (maps, self\<lparr>map_cache := Some maps,
                                      last_orientation := Some (yaw, pitch, roll)\<rparr>)))
       \<and> (compute_distortion_maps jit_failure self yaw pitch roll = Inr (maps1, self1)
          \<and> last_orientation self1 = Some (yaw1, pitch1, roll1)
          \<and> \<bar>yaw2 - yaw1\<bar> < ORIENTATION_THRESHOLD cfg
          \<and> \<bar>pitch2 - pitch1\<bar> < ORIENTATION_THRESHOLD cfg
          \<and> \<bar>roll2 - roll1\<bar> < ORIENTATION_THRESHOLD cfg
          \<longrightarrow> compute_distortion_maps jit_failure2 self1 yaw2 pitch2 roll2
                = Inr (maps1, self1))"
proof (intro conjI impI)
  have c: "config self = cfg"
    using VRProcessor_init_fields(1)[OF init] state by simp
  {
    assume "cache = Some cached \<and> recorded = Some (yaw0, pitch0, roll0)
          \<and> \<bar>yaw - yaw0\<bar> < ORIENTATION_THRESHOLD cfg
          \<and> \<bar>pitch - pitch0\<bar> < ORIENTATION_THRESHOLD cfg
          \<and> \<bar>roll - roll0\<bar> < ORIENTATION_THRESHOLD cfg"
    then show "compute_distortion_maps jit_failure self yaw pitch roll = Inr (cached, self)"
      using state c by (simp add: compute_distortion_maps_def should_use_cache_iff)
  }
  have len: "length (x_flat self) = target_height self * target_width self"
      "length (y_flat self) = target_height self * target_width self"
      "length (z_flat self) = target_height self * target_width self"
    using VRProcessor_init_lengths[OF init] state by simp_all
  {
    assume "recorded = None \<or> cache = None
          \<or> (recorded = Some (yaw0, pitch0, roll0)
              \<and> (ORIENTATION_THRESHOLD cfg \<le> \<bar>yaw - yaw0\<bar>
                 \<or> ORIENTATION_THRESHOLD cfg \<le> \<bar>pitch - pitch0\<bar>
                 \<or> ORIENTATION_THRESHOLD cfg \<le> \<bar>roll - roll0\<bar>))"
    then have "\<not> should_use_cache self (yaw, pitch, roll) \<or> map_cache self = None"
      using state c by (auto simp add: should_use_cache_iff)
    from recompute_result[OF len this] accelerated_maps[OF len]
    show "\<exists>maps.
                compute_vr_distortion (x_flat self) (y_flat self) (z_flat self)
                  (half_ipd self) (focal_length self) (target_width self) (target_height self)
                  (create_rotation_matrix yaw pitch roll) (target_height self) (target_width self)
                  = Inr maps
              \<and> compute_distortion_maps jit_failure self yaw pitch roll
                  = Inr (maps, self\<lparr>map_cache := Some maps,
                                      last_orientation := Some (yaw, pitch, roll)\<rparr>)"
      by blast
  }
  {
    assume a: "compute_distortion_maps jit_failure self yaw pitch roll = Inr (maps1, self1)
          \<and> last_orientation self1 = Some (yaw1, pitch1, roll1)
          \<and> \<bar>yaw2 - yaw1\<bar> < ORIENTATION_THRESHOLD cfg
          \<and> \<bar>pitch2 - pitch1\<bar> < ORIENTATION_THRESHOLD cfg
          \<and> \<bar>roll2 - roll1\<bar> < ORIENTATION_THRESHOLD cfg"
    then have call: "compute_distortion_maps jit_failure self yaw pitch roll = Inr (maps1, self1)"
      by simp
    from call_leaves_cache[OF len call]
    have m: "map_cache self1 = Some maps1" and c1: "config self1 = cfg"
      using c by simp_all
    have "should_use_cache self1 (yaw2, pitch2, roll2)"
      using a c1 by (simp add: should_use_cache_iff)
    from cached_result[OF m this]
    show "compute_distortion_maps jit_failure2 self1 yaw2 pitch2 roll2 = Inr (maps1, self1)" .
  }
qed

theorem remap_cache_reuse_and_recompute_witness:
  "compute_distortion_maps (Some JitError) example_processor 0 0 0
     = Inr (example_maps,
            example_processor\<lparr>map_cache := Some example_maps,
                              last_orientation := Some (0, 0, 0)\<rparr>)
   \<and> compute_distortion_maps None
       (example_processor\<lparr>map_cache := Some example_maps, last_orientation := Some (0, 0, 0)\<rparr>)
       (2 / 5) 0 0
     = Inr (example_maps,
            example_processor\<lparr>map_cache := Some example_maps,
                              last_orientation := Some (0, 0, 0)\<rparr>)
   \<and> (case compute_distortion_maps None
       (example_processor\<lparr>map_cache := Some example_maps, last_orientation := Some (0, 0, 0)\<rparr>)
       0 (1 / 2) 0 of
        Inl e \<Rightarrow> False
      | Inr (maps, self') \<Rightarrow>
          map_cache self' = Some maps \<and> last_orientation self' = Some (0, 1 / 2, 0))"
proof -
  let ?s = "example_processor\<lparr>map_cache := Some example_maps, last_orientation := Some (0, 0, 0)\<rparr>"
  have t: "ORIENTATION_THRESHOLD example_config = 1 / 2"
    by (simp add: example_config_def config_py_def)
  have e: "example_processor = example_processor\<lparr>map_cache := None, last_orientation := None\<rparr>"
    by (simp add: example_processor_def)
  note first = remap_cache_reuse_and_recompute[OF example_processor_init e,
      where yaw = 0 and pitch = 0 and roll = 0 and jit_failure = "Some JitError",
      THEN conjunct2, THEN conjunct1]
  have a: "compute_distortion_maps (Some JitError) example_processor 0 0 0 = Inr (example_maps, ?s)"
    using first example_jit by simp
  note reuse = remap_cache_reuse_and_recompute[OF example_processor_init refl,
      where cache = "Some example_maps" and cached = example_maps
        and recorded = "Some (0, 0, 0)" and ?yaw0.0 = 0 and ?pitch0.0 = 0 and ?roll0.0 = 0
        and yaw = "2 / 5" and pitch = 0 and roll = 0 and jit_failure = None,
      THEN conjunct1]
  have b: "compute_distortion_maps None ?s (2 / 5) 0 0 = Inr (example_maps, ?s)"
    using reuse by (simp add: t)
  note again = remap_cache_reuse_and_recompute[OF example_processor_init refl,
      where cache = "Some example_maps"
        and recorded = "Some (0, 0, 0)" and ?yaw0.0 = 0 and ?pitch0.0 = 0 and ?roll0.0 = 0
        and yaw = 0 and pitch = "1 / 2" and roll = 0 and jit_failure = None,
      THEN conjunct2, THEN conjunct1]
  have c: "case compute_distortion_maps None ?s 0 (1 / 2) 0 of
        Inl e \<Rightarrow> False
      | Inr (maps, self') \<Rightarrow>
          map_cache self' = Some maps \<and> last_orientation self' = Some (0, 1 / 2, 0)"
    using again by (auto simp add: t)
  from a b c show ?thesis by simp
qed

subsection \<open>Identity orientation\<close>

lemma VRProcessor_init_succeeds:
  assumes "tan (radians (FOV_DEGREES cfg) / 2) \<noteq> 0" "SCREEN_DISTANCE cfg \<noteq> 0"
  shows "\<exists>self. VRProcessor_init cfg = Inr self"
  using assms by (simp add: VRProcessor_init_def Let_def mgrid_def)


lemma fov_tan_positive:
  assumes "0 < FOV_DEGREES cfg" "FOV_DEGREES cfg < 180"
  shows "0 < tan (radians (FOV_DEGREES cfg) / 2)"
proof -
  have "0 < radians (FOV_DEGREES cfg) / 2" using assms(1) by (simp add: radians_def)
  moreover have "radians (FOV_DEGREES cfg) / 2 < pi / 2"
    using assms(2) by (simp add: radians_def)
  ultimately show ?thesis by (rule tan_gt_zero)
qed

text \<open>
  Claim C8.  For \<open>yaw = pitch = roll = 0\<close> and \<open>IPD = 0\<close>, with a field of view strictly
  between 0 and 180 degrees and a nonzero screen distance (so that the processor is built
  and its focal length is positive), the half-IPD offset is 0, the left and right maps are
  the same, and every destination pixel (row \<open>r\<close>, column \<open>c\<close>) maps to the source
  coordinates \<open>(c, r)\<close>.
\<close>

theorem identity_orientation_pinhole:
  assumes "IPD cfg = 0"
    and "0 < FOV_DEGREES cfg" "FOV_DEGREES cfg < 180" "SCREEN_DISTANCE cfg \<noteq> 0"
    and "r < CAPTURE_HEIGHT cfg" "c < CAPTURE_WIDTH cfg div 2"
  shows "\<exists>self map_x map_y.
      VRProcessor_init cfg = Inr self
    \<and> half_ipd self = 0
    \<and> compute_vr_distortion (x_flat self) (y_flat self) (z_flat self)
           (half_ipd self) (focal_length self) (target_width self) (target_height self)
           (create_rotation_matrix 0 0 0) (target_height self) (target_width self)
        = Inr (map_x, map_y, map_x, map_y)
    \<and> compute_vr_distortion_fallback self 0 0 0 = Inr (map_x, map_y, map_x, map_y)
    \<and> map_x ! r ! c = real c \<and> map_y ! r ! c = real r"
proof -
  have t: "0 < tan (radians (FOV_DEGREES cfg) / 2)" by (rule fov_tan_positive[OF assms(2,3)])
  then obtain self where init: "VRProcessor_init cfg = Inr self"
    using VRProcessor_init_succeeds[of cfg] assms(4) by auto
  note len = VRProcessor_init_lengths[OF init]
  note fld = VRProcessor_init_fields[OF init]
  have rc: "r < target_height self" "c < target_width self"
    using assms(5,6) fld(2,3) by simp_all
  have h: "half_ipd self = 0" using fld(7) assms(1) by simp
  have "0 < real (CAPTURE_WIDTH cfg div 2)" using assms(6) by simp
  then have f: "0 < focal_length self" using t by (simp add: fld(5))
  obtain lx ly rx ry where m: "reference_maps self 0 0 0 = (lx, ly, rx, ry)"
    by (cases "reference_maps self 0 0 0") auto
  have same: "rx = lx" "ry = ly"
    using m by (auto simp add: reference_maps_def Let_def h)
  have "(lx ! r ! c, ly ! r ! c) = (real c, real r)"
    using reference_maps_nth(1)[OF init rc m] f
    by (simp add: h identity_rotation apply_rotation_def spec_project_def)
  then show ?thesis
    using accelerated_maps[OF len, of 0 0 0] fallback_maps[OF len, of 0 0 0] h init
    unfolding m same by simp
qed

theorem identity_orientation_pinhole_witness:
  "\<exists>self map_x map_y.
      VRProcessor_init (config_py\<lparr>IPD := 0\<rparr>) = Inr self
    \<and> compute_vr_distortion (x_flat self) (y_flat self) (z_flat self)
           (half_ipd self) (focal_length self) (target_width self) (target_height self)
           (create_rotation_matrix 0 0 0) (target_height self) (target_width self)
        = Inr (map_x, map_y, map_x, map_y)
    \<and> map_x ! 360 ! 320 = 320 \<and> map_y ! 360 ! 320 = 360"
proof -
  have "IPD (config_py\<lparr>IPD := 0\<rparr>) = 0"
    and "0 < FOV_DEGREES (config_py\<lparr>IPD := 0\<rparr>)"
    and "FOV_DEGREES (config_py\<lparr>IPD := 0\<rparr>) < 180"
    and "SCREEN_DISTANCE (config_py\<lparr>IPD := 0\<rparr>) \<noteq> 0"
    and "360 < CAPTURE_HEIGHT (config_py\<lparr>IPD := 0\<rparr>)"
    and "320 < CAPTURE_WIDTH (config_py\<lparr>IPD := 0\<rparr>) div 2"
    by (simp_all add: config_py_def)
  from identity_orientation_pinhole[OF this] show ?thesis by auto
qed

subsection \<open>Sensor lines\<close>

lemmas reader_eval = pattern_def isspace_def isdigit_def number_char_def strip_def
  py_float_def digits_value_def Let_def

lemma search_valid: "re_search pattern (strip ''noise Yaw: -12.50, Pitch: 3.0, Roll: 0.00 trailing'')
    = Some [''-12.50'', ''3.0'', ''0.00'']"
  by (simp add: reader_eval)

lemma float_examples:
  "py_float ''-12.50'' = Inr (- (25 / 2))" "py_float ''3.0'' = Inr 3" "py_float ''0.00'' = Inr 0"
  "py_float ''-.'' = Inl ValueError" "py_float ''1.2.3'' = Inl ValueError"
  "py_float ''1.0'' = Inr 1" "py_float ''0'' = Inr 0"
  by (simp_all add: reader_eval)

lemma handle_line_unmatched:
  "re_search pattern (strip text) = None \<Longrightarrow> handle_line now text q = Inr q"
  by (simp add: handle_line_def)

lemma handle_line_garbage: "handle_line now ''garbage'' q = Inr q"
  by (simp add: handle_line_def reader_eval)

lemma handle_line_matched:
  assumes "re_search pattern (strip text) = Some [group1, group2, group3]"
    and "py_float group1 = Inr yaw" "py_float group2 = Inr pitch" "py_float group3 = Inr roll"
  shows "handle_line now text q =
     Inr (if full q then q else q\<lparr>items := items q @ [make_sample yaw pitch roll now]\<rparr>)"
  using assms by (simp add: handle_line_def put_nowait_def)

lemma handle_line_example:
  "handle_line now ''noise Yaw: -12.50, Pitch: 3.0, Roll: 0.00 trailing'' (Queue 10)
     = Inr \<lparr>maxsize = 10, items = [make_sample (- 12.5) 3 0 now]\<rparr>"
  using handle_line_matched[OF search_valid float_examples(1,2,3), of now "Queue 10"]
  by (simp add: full_def Queue_def)

text \<open>
  Claim C10.  The line \<open>Yaw: -., Pitch: 1.0, Roll: 1.0\<close> matches the pattern, the first
  group being \<open>-.\<close>; \<open>float\<close> raises \<open>ValueError\<close> on that group; the exception leaves the
  handling of the line, and the loop of \<open>sensor_reader\<close> ends there, whatever iterations
  would follow: the outer handler reports the \<open>ValueError\<close>, the serial connection is
  closed and the queue is as it was.
\<close>

theorem malformed_number_ends_loop:
  "re_search pattern (strip ''Yaw: -., Pitch: 1.0, Roll: 1.0'') = Some [''-.'', ''1.0'', ''1.0'']
   \<and> py_float ''-.'' = Inl ValueError
   \<and> handle_line now ''Yaw: -., Pitch: 1.0, Roll: 1.0'' q = Inl ValueError
   \<and> read_loop ((now, Line ''Yaw: -., Pitch: 1.0, Roll: 1.0'') # rest) q = (Some ValueError, q)
   \<and> sensor_reader True ((now, Line ''Yaw: -., Pitch: 1.0, Roll: 1.0'') # rest) q
       = (Some ValueError, True, q)"
proof -
  have m: "re_search pattern (strip ''Yaw: -., Pitch: 1.0, Roll: 1.0'') = Some [''-.'', ''1.0'', ''1.0'']"
    by (simp add: reader_eval)
  have f: "py_float ''-.'' = Inl ValueError" by (simp add: reader_eval)
  have h: "handle_line now ''Yaw: -., Pitch: 1.0, Roll: 1.0'' q = Inl ValueError"
    unfolding handle_line_def Let_def m by (simp add: f)
  show ?thesis using m f h by (simp add: sensor_reader_def)
qed

theorem malformed_number_ends_loop_witness:
  "sensor_reader True
     [(0, Line ''Yaw: -., Pitch: 1.0, Roll: 1.0''), (1, Line ''Yaw: 1.0, Pitch: 2.0, Roll: 3.0'')]
     (Queue 10)
   = (Some ValueError, True, Queue 10)"
  using malformed_number_ends_loop
    [where now = 0 and q = "Queue 10"
       and rest = "[(1, Line ''Yaw: 1.0, Pitch: 2.0, Roll: 3.0'')]"]
  by simp

text \<open>
  Claim C5, at the line \<open>Yaw: 1.2.3, Pitch: 0, Roll: 0\<close>.  The pattern matches, \<open>float\<close>
  raises \<open>ValueError\<close> on the group \<open>1.2.3\<close>: no sample is produced, the line is not
  silently discarded, and the loop ends without reading the valid line that follows.
  For the other lines the lemmas above hold: an unmatched line leaves the queue as it
  is (\<open>handle_line_unmatched\<close>), a matched line with three valid numbers is put on the
  queue unless the queue is full (\<open>handle_line_matched\<close>), and the two lines of the
  specification behave as it says (\<open>handle_line_example\<close>, \<open>handle_line_garbage\<close>).
\<close>

theorem sensor_line_with_malformed_number:
  "handle_line now ''Yaw: 1.2.3, Pitch: 0, Roll: 0'' q = Inl ValueError
   \<and> read_loop ((now, Line ''Yaw: 1.2.3, Pitch: 0, Roll: 0'')
                 # (later, Line ''Yaw: 1.0, Pitch: 0, Roll: 0'') # rest) q
       = (Some ValueError, q)"
proof -
  have m: "re_search pattern (strip ''Yaw: 1.2.3, Pitch: 0, Roll: 0'') = Some [''1.2.3'', ''0'', ''0'']"
    by (simp add: reader_eval)
  have f: "py_float ''1.2.3'' = Inl ValueError" by (simp add: reader_eval)
  have h: "handle_line now ''Yaw: 1.2.3, Pitch: 0, Roll: 0'' q = Inl ValueError"
    unfolding handle_line_def Let_def m by (simp add: f)
  show ?thesis using h by simp
qed

theorem sensor_line_with_malformed_number_witness:
  "read_loop
     [(0, Line ''Yaw: 1.2.3, Pitch: 0, Roll: 0''), (1, Line ''Yaw: 1.0, Pitch: 0, Roll: 0'')]
     (Queue 10)
   = (Some ValueError, Queue 10)
   \<and> read_loop [(1, Line ''Yaw: 1.0, Pitch: 0, Roll: 0'')] (Queue 10)
   = (None, \<lparr>maxsize = 10, items = [make_sample 1 0 0 1]\<rparr>)"
proof -
  have m: "re_search pattern (strip ''Yaw: 1.0, Pitch: 0, Roll: 0'') = Some [''1.0'', ''0'', ''0'']"
    by (simp add: reader_eval)
  have "handle_line 1 ''Yaw: 1.0, Pitch: 0, Roll: 0'' (Queue 10)
      = Inr \<lparr>maxsize = 10, items = [make_sample 1 0 0 1]\<rparr>"
    using handle_line_matched[OF m float_examples(6,7,7), of 1 "Queue 10"]
    by (simp add: full_def Queue_def)
  then show ?thesis
    using sensor_line_with_malformed_number
      [where now = 0 and q = "Queue 10" and later = 1 and rest = "[]"]
    by simp
qed

subsection \<open>Calibration offsets of the render loop\<close>

lemma example_lengths:
  "length (x_flat example_processor) = target_height example_processor * target_width example_processor"
  "length (y_flat example_processor) = target_height example_processor * target_width example_processor"
  "length (z_flat example_processor) = target_height example_processor * target_width example_processor"
  by (simp_all add: example_processor_def)

lemma example_render_frame:
  "render_frame None (\<lambda>maps frame. frame) example_processor (7::nat) 100 12 0 =
     Inr (7, example_processor
              \<lparr>map_cache := Some (reference_maps example_processor 100 12 0),
               last_orientation := Some (100, 12, 0)\<rparr>)"
proof -
  have "map_cache example_processor = None" by (simp add: example_processor_def)
  then show ?thesis
    by (simp add: render_frame_def recompute_result[OF example_lengths disjI2])
qed

lemma example_queue_frame: "queue_frame (7::nat) (Queue 2) = Inr \<lparr>maxsize = 2, items = [7]\<rparr>"
  by (simp add: queue_frame_not_full full_def Queue_def)

lemma example_app_step:
  "render_frame_thread_step None (\<lambda>maps frame. frame) example_app =
     Inr (example_app\<lparr>frame_buffer := \<lparr>maxsize = 2, items = []\<rparr>,
            vr_processor := example_processor
              \<lparr>map_cache := Some (reference_maps example_processor 100 12 0),
               last_orientation := Some (100, 12, 0)\<rparr>,
            render_buffer := \<lparr>maxsize = 2, items = [7]\<rparr>\<rparr>)"
proof -
  have a: "\<not> full (Queue 2)" "\<not> empty \<lparr>maxsize = 2, items = [7::nat]\<rparr>"
    "get_nowait \<lparr>maxsize = 2, items = [7::nat]\<rparr> = Inr (7, \<lparr>maxsize = 2, items = []\<rparr>)"
    by (simp_all add: full_def empty_def Queue_def get_nowait_def)
  have b: "dict_get (sensor_data example_app) ''yaw'' 0 + 100 = 100"
    "dict_get (sensor_data example_app) ''pitch'' 0 + 12 = 12"
    "dict_get (sensor_data example_app) ''roll'' 0 = 0"
    by (simp_all add: example_app_def dict_get_def)
  have c: "vr_processor example_app = example_processor" "render_buffer example_app = Queue 2"
    "frame_buffer example_app = \<lparr>maxsize = 2, items = [7]\<rparr>"
    by (simp_all add: example_app_def)
  show ?thesis
    by (simp add: render_frame_thread_step_def a b c example_render_frame example_queue_frame)
qed

text \<open>
  Claim C1 as stated, at the example state.  The orientation that reaches the processor
  from the snapshot \<open>(0, 0, 0)\<close> is \<open>(100, 12, 0)\<close>, and neither 100 nor 12 is a value of
  the configuration, be it the configuration of the example or \<open>config.py\<close> itself.
\<close>

theorem calibration_offsets_counterexample:
  "(case render_frame_thread_step None (\<lambda>maps frame. frame) example_app of
      Inl e \<Rightarrow> None
    | Inr app \<Rightarrow> last_orientation (vr_processor app)) = Some (0 + 100, 0 + 12, 0)
   \<and> sensor_data example_app ''yaw'' = Some 0 \<and> sensor_data example_app ''pitch'' = Some 0
   \<and> 100 \<notin> set (config_values (app_config example_app))
   \<and> 12 \<notin> set (config_values (app_config example_app))
   \<and> 100 \<notin> set (config_values config_py) \<and> 12 \<notin> set (config_values config_py)"
  by (simp add: example_app_step)
    (simp add: example_app_def config_values_def example_config_def config_py_def)

text \<open>
  Claim C1, amended.  In every iteration of the render loop that processes a frame (the
  render buffer is not full and a frame is waiting), in every state and hence for every
  configuration, \<open>render_frame\<close> is called with the snapshot's yaw plus 100, its pitch
  plus 12 and its roll unchanged (a missing key reading as 0): the two offsets are the
  literals 100 and 12 of \<open>render_frame_thread\<close>.
\<close>

theorem render_orientation_offsets:
  assumes "\<not> full (render_buffer self)" and "items (frame_buffer self) = frame # frames"
  shows "render_frame_thread_step jit_failure resample self =
     (case render_frame jit_failure resample (vr_processor self) frame
             (dict_get (sensor_data self) ''yaw'' 0 + 100)
             (dict_get (sensor_data self) ''pitch'' 0 + 12)
             (dict_get (sensor_data self) ''roll'' 0) of
        Inl Empty \<Rightarrow> Inr (self\<lparr>frame_buffer := (frame_buffer self)\<lparr>items := frames\<rparr>\<rparr>)
      | Inl e \<Rightarrow> Inl e
      | Inr (combined_frame, processor) \<Rightarrow>
          (case queue_frame combined_frame (render_buffer self) of
             Inl Empty \<Rightarrow>
               Inr (self\<lparr>frame_buffer := (frame_buffer self)\<lparr>items := frames\<rparr>,
                         vr_processor := processor\<rparr>)
           | Inl e \<Rightarrow> Inl e
           | Inr rendered \<Rightarrow>
               Inr (self\<lparr>frame_buffer := (frame_buffer self)\<lparr>items := frames\<rparr>,
                         vr_processor := processor, render_buffer := rendered\<rparr>)))"
  using assms
  by (auto simp add: render_frame_thread_step_def empty_def get_nowait_def Let_def
      split: sum.splits error.splits prod.splits)

theorem render_orientation_offsets_witness:
  "render_frame_thread_step None (\<lambda>maps frame. frame) example_app =
     Inr (example_app\<lparr>frame_buffer := \<lparr>maxsize = 2, items = []\<rparr>,
            vr_processor := example_processor
              \<lparr>map_cache := Some (reference_maps example_processor 100 12 0),
               last_orientation := Some (100, 12, 0)\<rparr>,
            render_buffer := \<lparr>maxsize = 2, items = [7]\<rparr>\<rparr>)"
proof -
  have a: "\<not> full (render_buffer example_app)"
    and b: "items (frame_buffer example_app) = 7 # []"
    by (simp_all add: example_app_def full_def Queue_def)
  have c: "dict_get (sensor_data example_app) ''yaw'' 0 + 100 = 100"
    "dict_get (sensor_data example_app) ''pitch'' 0 + 12 = 12"
    "dict_get (sensor_data example_app) ''roll'' 0 = 0"
    by (simp_all add: example_app_def dict_get_def)
  have d: "vr_processor example_app = example_processor" "render_buffer example_app = Queue 2"
    "frame_buffer example_app = \<lparr>maxsize = 2, items = [7]\<rparr>"
    by (simp_all add: example_app_def)
  show ?thesis
    using render_orientation_offsets[OF a b, of None "\<lambda>maps frame. frame"]
    by (simp add: c d example_render_frame example_queue_frame)
qed

end
